theory Spec2Isabelle
  imports Main "HOL-Library.AList"
begin

section \<open>Errors and outcomes\<close>

text \<open>
  The client is written in Go.  A Go function either returns its results or panics
  (here only through a nil pointer dereference), so every operation of the model
  yields an \<open>outcome\<close>.  A pointer is an \<open>option\<close>: \<open>None\<close> is \<open>nil\<close>.  The usual Go
  result pair \<open>(res, err)\<close> is a pair of options.
\<close>

datatype json_error = SyntaxError | UnmarshalTypeError

datatype error = ErrorString string | JsonError json_error

datatype 'a outcome = Panic | Return 'a

section \<open>The JSON decoder of the Go library\<close>

text \<open>
  The client decodes every response with \<open>json.Unmarshal\<close> of \<open>encoding/json\<close>.
  That package is not part of the repository; this section models its documented
  behaviour for the targets the client passes to it: the text is first checked to be
  one JSON value, and a text that is not leaves the target untouched and yields a
  syntax error; otherwise the value is stored into the target, where a value of the
  wrong kind yields a type error (the first one is reported) while the rest is still
  stored.  The limit on the nesting depth that later versions of the package enforce
  is not modelled: a value of any depth is accepted.
\<close>

datatype json =
    JNull
  | JBool bool
  | JNumber string
  | JString string
  | JArray "json list"
  | JObject "(string \<times> json) list"

definition is_space :: "char \<Rightarrow> bool" where
  "is_space c = (c = CHR 0x20 \<or> c = CHR 0x09 \<or> c = CHR 0x0A \<or> c = CHR 0x0D)"

fun skip_space :: "string \<Rightarrow> string" where
  "skip_space [] = []"
| "skip_space (c # cs) = (if is_space c then skip_space cs else c # cs)"

definition is_digit :: "char \<Rightarrow> bool" where
  "is_digit c = (48 \<le> (of_char c :: nat) \<and> (of_char c :: nat) \<le> 57)"

fun hexval :: "char \<Rightarrow> nat option" where
  "hexval c =
     (let n = (of_char c :: nat) in
      if 48 \<le> n \<and> n \<le> 57 then Some (n - 48)
      else if 97 \<le> n \<and> n \<le> 102 then Some (n - 87)
      else if 65 \<le> n \<and> n \<le> 70 then Some (n - 55)
      else None)"

definition scan_digits :: "string \<Rightarrow> string \<times> string" where
  "scan_digits s = (takeWhile is_digit s, dropWhile is_digit s)"

text \<open>The number grammar: an optional minus, \<open>0\<close> or a digit sequence without leading
  zero, an optional fraction, an optional exponent.\<close>

definition scan_int :: "string \<Rightarrow> (string \<times> string) option" where
  "scan_int s =
     (case s of
        [] \<Rightarrow> None
      | c # cs \<Rightarrow>
          if c = CHR ''0'' then Some ([c], cs)
          else if is_digit c then (case scan_digits cs of (ds, r) \<Rightarrow> Some (c # ds, r))
          else None)"

definition scan_frac :: "string \<Rightarrow> (string \<times> string) option" where
  "scan_frac s =
     (case s of
        [] \<Rightarrow> Some ([], [])
      | c # cs \<Rightarrow>
          if c = CHR ''.'' then
            (case scan_digits cs of (ds, r) \<Rightarrow> if ds = [] then None else Some (c # ds, r))
          else Some ([], s))"

definition scan_exp :: "string \<Rightarrow> (string \<times> string) option" where
  "scan_exp s =
     (case s of
        [] \<Rightarrow> Some ([], [])
      | c # cs \<Rightarrow>
          if c = CHR ''e'' \<or> c = CHR ''E'' then
            (case (case cs of
                     [] \<Rightarrow> ([], cs)
                   | d # ds \<Rightarrow> if d = CHR ''+'' \<or> d = CHR ''-'' then ([d], ds) else ([], cs)) of
               (sg, r) \<Rightarrow>
                 (case scan_digits r of
                    (ds, r') \<Rightarrow> if ds = [] then None else Some (c # sg @ ds, r')))
          else Some ([], s))"

definition scan_number :: "string \<Rightarrow> (string \<times> string) option" where
  "scan_number s =
     (case (case s of
              [] \<Rightarrow> ([], s)
            | c # cs \<Rightarrow> if c = CHR ''-'' then ([c], cs) else ([], s)) of
        (sg, r0) \<Rightarrow>
          (case scan_int r0 of
             None \<Rightarrow> None
           | Some (i, r1) \<Rightarrow>
               (case scan_frac r1 of
                  None \<Rightarrow> None
                | Some (f, r2) \<Rightarrow>
                    (case scan_exp r2 of
                       None \<Rightarrow> None
                     | Some (e, r3) \<Rightarrow> Some (sg @ i @ f @ e, r3)))))"

text \<open>A string literal, read after its opening quote: the raw text up to the closing
  quote, with the escapes checked but not yet replaced.\<close>

definition is_escape :: "char \<Rightarrow> bool" where
  "is_escape e = (e = CHR 0x22 \<or> e = CHR 0x5C \<or> e = CHR ''/'' \<or> e = CHR ''b'' \<or>
     e = CHR ''f'' \<or> e = CHR ''n'' \<or> e = CHR ''r'' \<or> e = CHR ''t'')"

fun scan_string :: "string \<Rightarrow> (string \<times> string) option" where
  "scan_string [] = None"
| "scan_string (c # cs) =
     (if c = CHR 0x22 then Some ([], cs)
      else if c = CHR 0x5C then
        (case cs of
           [] \<Rightarrow> None
         | e # r \<Rightarrow>
             if is_escape e then
               (case scan_string r of None \<Rightarrow> None | Some (raw, rest) \<Rightarrow> Some (c # e # raw, rest))
             else if e = CHR ''u'' then
               (case r of
                  h1 # h2 # h3 # h4 # r' \<Rightarrow>
                    if hexval h1 \<noteq> None \<and> hexval h2 \<noteq> None \<and> hexval h3 \<noteq> None \<and> hexval h4 \<noteq> None
                    then (case scan_string r' of
                            None \<Rightarrow> None
                          | Some (raw, rest) \<Rightarrow> Some (c # e # h1 # h2 # h3 # h4 # raw, rest))
                    else None
                | _ \<Rightarrow> None)
             else None)
      else if (of_char c :: nat) < 32 then None
      else (case scan_string cs of None \<Rightarrow> None | Some (raw, rest) \<Rightarrow> Some (c # raw, rest)))"

text \<open>UTF-8: the encoding of a code point, and the length of the valid sequence that
  starts a byte string (0 when there is none).\<close>

definition utf8_encode :: "nat \<Rightarrow> string" where
  "utf8_encode r =
     (if r < 128 then [char_of r]
      else if r < 2048 then [char_of (192 + r div 64), char_of (128 + r mod 64)]
      else if r < 65536 then
        [char_of (224 + r div 4096), char_of (128 + (r div 64) mod 64), char_of (128 + r mod 64)]
      else
        [char_of (240 + r div 262144), char_of (128 + (r div 4096) mod 64),
         char_of (128 + (r div 64) mod 64), char_of (128 + r mod 64)])"

definition replacement_char :: string where
  "replacement_char = utf8_encode 65533"

definition in_range :: "nat \<Rightarrow> nat \<Rightarrow> char \<Rightarrow> bool" where
  "in_range lo hi c = (lo \<le> (of_char c :: nat) \<and> (of_char c :: nat) \<le> hi)"

definition utf8_width :: "string \<Rightarrow> nat" where
  "utf8_width s =
     (case s of
        [] \<Rightarrow> 0
      | b0 # s1 \<Rightarrow>
          (let n = (of_char b0 :: nat) in
           if n < 128 then 1
           else (case s1 of
               [] \<Rightarrow> 0
             | b1 # s2 \<Rightarrow>
                 if 194 \<le> n \<and> n \<le> 223 then (if in_range 128 191 b1 then 2 else 0)
                 else (case s2 of
                     [] \<Rightarrow> 0
                   | b2 # s3 \<Rightarrow>
                       if 224 \<le> n \<and> n \<le> 239 then
                         (if in_range (if n = 224 then 160 else 128) (if n = 237 then 159 else 191) b1
                             \<and> in_range 128 191 b2 then 3 else 0)
                       else (case s3 of
                           [] \<Rightarrow> 0
                         | b3 # s4 \<Rightarrow>
                             if 240 \<le> n \<and> n \<le> 244 then
                               (if in_range (if n = 240 then 144 else 128) (if n = 244 then 143 else 191) b1
                                   \<and> in_range 128 191 b2 \<and> in_range 128 191 b3 then 4 else 0)
                             else 0)))))"

definition hex4 :: "string \<Rightarrow> nat option" where
  "hex4 s =
     (case s of
        h1 # h2 # h3 # h4 # _ \<Rightarrow>
          (case (hexval h1, hexval h2, hexval h3, hexval h4) of
             (Some a, Some b, Some c, Some d) \<Rightarrow> Some (((a * 16 + b) * 16 + c) * 16 + d)
           | _ \<Rightarrow> None)
      | _ \<Rightarrow> None)"

definition escaped_u :: "string \<Rightarrow> nat option" where
  "escaped_u s =
     (case s of
        c # e # r \<Rightarrow> if c = CHR 0x5C \<and> e = CHR ''u'' then hex4 r else None
      | _ \<Rightarrow> None)"

definition unescape :: "char \<Rightarrow> char" where
  "unescape e =
     (if e = CHR ''b'' then CHR 0x08 else if e = CHR ''f'' then CHR 0x0C
      else if e = CHR ''n'' then CHR 0x0A else if e = CHR ''r'' then CHR 0x0D
      else if e = CHR ''t'' then CHR 0x09 else e)"

text \<open>Replacing the escapes of a checked raw string.  The list \<open>k\<close> only bounds the
  recursion: it is the raw string itself, and each step consumes at least one of its
  characters.  A \<open>\u\<close> escape of a surrogate is combined with a following low surrogate
  escape, and is the replacement character when there is none; bytes that are not
  valid UTF-8 become the replacement character.\<close>

fun unquote_aux :: "'b list \<Rightarrow> string \<Rightarrow> string" where
  "unquote_aux [] s = []"
| "unquote_aux (x # k) s =
     (case s of
        [] \<Rightarrow> []
      | c # cs \<Rightarrow>
          if c = CHR 0x5C then
            (case cs of
               [] \<Rightarrow> []
             | e # r \<Rightarrow>
                 if e = CHR ''u'' then
                   (case hex4 r of
                      None \<Rightarrow> []
                    | Some u \<Rightarrow>
                        if 55296 \<le> u \<and> u < 57344 then
                          (case escaped_u (drop 4 r) of
                             Some v \<Rightarrow>
                               if u < 56320 \<and> 56320 \<le> v \<and> v < 57344
                               then utf8_encode ((u - 55296) * 1024 + (v - 56320) + 65536)
                                      @ unquote_aux k (drop 10 r)
                               else replacement_char @ unquote_aux k (drop 4 r)
                           | None \<Rightarrow> replacement_char @ unquote_aux k (drop 4 r))
                        else utf8_encode u @ unquote_aux k (drop 4 r))
                 else unescape e # unquote_aux k r)
          else if (of_char c :: nat) < 128 then c # unquote_aux k cs
          else (let w = utf8_width s in
                if w = 0 then replacement_char @ unquote_aux k cs
                else take w s @ unquote_aux k (drop w s)))"

definition unquote :: "string \<Rightarrow> string" where
  "unquote raw = unquote_aux raw raw"

text \<open>The value grammar.  The first argument bounds the recursion; \<open>json_parse\<close> passes
  a bound that no text exhausts (lemma \<open>json_parse_fuel\<close> below).\<close>

fun parse_value :: "nat \<Rightarrow> string \<Rightarrow> (json \<times> string) option"
  and parse_elements :: "nat \<Rightarrow> string \<Rightarrow> (json list \<times> string) option"
  and parse_members :: "nat \<Rightarrow> string \<Rightarrow> ((string \<times> json) list \<times> string) option"
where
  "parse_value 0 s = None"
| "parse_value (Suc k) s =
     (case skip_space s of
        [] \<Rightarrow> None
      | c # cs \<Rightarrow>
          if c = CHR ''{'' then
            (case skip_space cs of
               [] \<Rightarrow> None
             | d # ds \<Rightarrow>
                 if d = CHR ''}'' then Some (JObject [], ds)
                 else (case parse_members k (d # ds) of
                         None \<Rightarrow> None
                       | Some (ms, r) \<Rightarrow> Some (JObject ms, r)))
          else if c = CHR ''['' then
            (case skip_space cs of
               [] \<Rightarrow> None
             | d # ds \<Rightarrow>
                 if d = CHR '']'' then Some (JArray [], ds)
                 else (case parse_elements k (d # ds) of
                         None \<Rightarrow> None
                       | Some (vs, r) \<Rightarrow> Some (JArray vs, r)))
          else if c = CHR 0x22 then
            (case scan_string cs of
               None \<Rightarrow> None
             | Some (raw, r) \<Rightarrow> Some (JString (unquote raw), r))
          else if take 4 (c # cs) = ''true'' then Some (JBool True, drop 4 (c # cs))
          else if take 5 (c # cs) = ''false'' then Some (JBool False, drop 5 (c # cs))
          else if take 4 (c # cs) = ''null'' then Some (JNull, drop 4 (c # cs))
          else (case scan_number (c # cs) of
                  None \<Rightarrow> None
                | Some (n, r) \<Rightarrow> Some (JNumber n, r)))"
| "parse_elements 0 s = None"
| "parse_elements (Suc k) s =
     (case parse_value k s of
        None \<Rightarrow> None
      | Some (v, r) \<Rightarrow>
          (case skip_space r of
             [] \<Rightarrow> None
           | c # cs \<Rightarrow>
               if c = CHR '','' then
                 (case parse_elements k cs of
                    None \<Rightarrow> None
                  | Some (vs, r') \<Rightarrow> Some (v # vs, r'))
               else if c = CHR '']'' then Some ([v], cs)
               else None))"
| "parse_members 0 s = None"
| "parse_members (Suc k) s =
     (case skip_space s of
        [] \<Rightarrow> None
      | q # s1 \<Rightarrow>
          if q \<noteq> CHR 0x22 then None
          else (case scan_string s1 of
             None \<Rightarrow> None
           | Some (raw, s2) \<Rightarrow>
               (case skip_space s2 of
                  [] \<Rightarrow> None
                | c # s3 \<Rightarrow>
                    if c \<noteq> CHR '':'' then None
                    else (case parse_value k s3 of
                       None \<Rightarrow> None
                     | Some (v, s4) \<Rightarrow>
                         (case skip_space s4 of
                            [] \<Rightarrow> None
                          | d # s5 \<Rightarrow>
                              if d = CHR '','' then
                                (case parse_members k s5 of
                                   None \<Rightarrow> None
                                 | Some (ms, r) \<Rightarrow> Some ((unquote raw, v) # ms, r))
                              else if d = CHR ''}'' then Some ([(unquote raw, v)], s5)
                              else None)))))"

definition json_parse :: "string \<Rightarrow> json option" where
  "json_parse s =
     (case parse_value (Suc (2 * length s)) s of
        None \<Rightarrow> None
      | Some (v, r) \<Rightarrow> if skip_space r = [] then Some v else None)"

text \<open>Matching an object key against a field name ignores the case of letters; the
  long s (U+017F) and the Kelvin sign (U+212A) count as \<open>s\<close> and \<open>k\<close>.  The field names
  of the client's structs stay distinct under this folding, so a key selects at most
  one field.\<close>

definition upper :: "char \<Rightarrow> char" where
  "upper c = (if 97 \<le> (of_char c :: nat) \<and> (of_char c :: nat) \<le> 122
              then char_of ((of_char c :: nat) - 32) else c)"

fun fold_name :: "string \<Rightarrow> string" where
  "fold_name (c # d # e # cs) =
     (if c = CHR 0xE2 \<and> d = CHR 0x84 \<and> e = CHR 0xAA then CHR ''K'' # fold_name cs
      else if c = CHR 0xC5 \<and> d = CHR 0xBF then CHR ''S'' # fold_name (e # cs)
      else upper c # fold_name (d # e # cs))"
| "fold_name [c, d] =
     (if c = CHR 0xC5 \<and> d = CHR 0xBF then [CHR ''S''] else [upper c, upper d])"
| "fold_name [c] = [upper c]"
| "fold_name [] = []"

definition first_error :: "json_error option \<Rightarrow> json_error option \<Rightarrow> json_error option" where
  "first_error e e' = (case e of None \<Rightarrow> e' | Some x \<Rightarrow> Some x)"

text \<open>Storing a value into a field of type \<open>*string\<close>: \<open>null\<close> makes the pointer nil, a
  string is stored, and any other value is a type error after the pointer has been
  allocated (it then points to the empty string, or keeps what it pointed to).\<close>

definition store_string :: "string option \<Rightarrow> json \<Rightarrow> string option \<times> json_error option" where
  "store_string cur v =
     (case v of
        JNull \<Rightarrow> (None, None)
      | JString s \<Rightarrow> (Some s, None)
      | _ \<Rightarrow> (Some (case cur of None \<Rightarrow> [] | Some x \<Rightarrow> x), Some UnmarshalTypeError))"

section \<open>Scripts and execution results\<close>

text \<open>\<open>Script\<close> and \<open>ExecuteScriptResponse\<close> as the source declares them; every field is
  a \<open>*string\<close>.  The unexported \<open>client\<close> field is not modelled: the operations take the
  client explicitly.\<close>

record Script =
  Name :: "string option"
  Content :: "string option"
  Type :: "string option"

record ExecuteScriptResponse =
  ResponseName :: "string option"
  Result :: "string option"

definition ScriptTypeGroovy :: "string option" where
  "ScriptTypeGroovy = Some ''groovy''"

fun store_Script :: "Script \<times> json_error option \<Rightarrow> string \<times> json \<Rightarrow> Script \<times> json_error option" where
  "store_Script (s, e) (k, v) =
     (if fold_name k = ''NAME'' then
        (case store_string (Name s) v of (x, e') \<Rightarrow> (s\<lparr>Name := x\<rparr>, first_error e e'))
      else if fold_name k = ''CONTENT'' then
        (case store_string (Content s) v of (x, e') \<Rightarrow> (s\<lparr>Content := x\<rparr>, first_error e e'))
      else if fold_name k = ''TYPE'' then
        (case store_string (Type s) v of (x, e') \<Rightarrow> (s\<lparr>Type := x\<rparr>, first_error e e'))
      else (s, e))"

text \<open>\<open>json.Unmarshal(text, &script)\<close> with \<open>script\<close> a nil \<open>*Script\<close>: the new value of
  \<open>script\<close> and the error.\<close>

definition json_Unmarshal_Script :: "string \<Rightarrow> Script option \<times> json_error option" where
  "json_Unmarshal_Script text =
     (case json_parse text of
        None \<Rightarrow> (None, Some SyntaxError)
      | Some JNull \<Rightarrow> (None, None)
      | Some (JObject ms) \<Rightarrow>
          (case foldl store_Script (\<lparr>Name = None, Content = None, Type = None\<rparr>, None) ms of
             (s, e) \<Rightarrow> (Some s, e))
      | Some _ \<Rightarrow> (Some \<lparr>Name = None, Content = None, Type = None\<rparr>, Some UnmarshalTypeError))"

fun store_Response ::
  "ExecuteScriptResponse \<times> json_error option \<Rightarrow> string \<times> json \<Rightarrow>
   ExecuteScriptResponse \<times> json_error option" where
  "store_Response (r, e) (k, v) =
     (if fold_name k = ''NAME'' then
        (case store_string (ResponseName r) v of (x, e') \<Rightarrow> (r\<lparr>ResponseName := x\<rparr>, first_error e e'))
      else if fold_name k = ''RESULT'' then
        (case store_string (Result r) v of (x, e') \<Rightarrow> (r\<lparr>Result := x\<rparr>, first_error e e'))
      else (r, e))"

text \<open>\<open>json.Unmarshal(text, &res)\<close> with \<open>res\<close> a nil \<open>*ExecuteScriptResponse\<close>.\<close>

definition json_Unmarshal_Response :: "string \<Rightarrow> ExecuteScriptResponse option \<times> json_error option" where
  "json_Unmarshal_Response text =
     (case json_parse text of
        None \<Rightarrow> (None, Some SyntaxError)
      | Some JNull \<Rightarrow> (None, None)
      | Some (JObject ms) \<Rightarrow>
          (case foldl store_Response (\<lparr>ResponseName = None, Result = None\<rparr>, None) ms of
             (r, e) \<Rightarrow> (Some r, e))
      | Some _ \<Rightarrow> (Some \<lparr>ResponseName = None, Result = None\<rparr>, Some UnmarshalTypeError))"

section \<open>The client and its surroundings\<close>

text \<open>The fields of \<open>Nexus\<close> that the operations read.\<close>

record Nexus =
  host :: string
  username :: string
  password :: string

text \<open>What \<open>NewRequest\<close> puts into an \<open>http.Request\<close>: the method, the address
  \<open>host/endpoint\<close>, the query arguments (nil when there are none), the body (nil when
  there is none), the content type and the credentials of the basic authentication.\<close>

record request =
  Method :: string
  URL :: string
  Args :: "(string \<times> string) list option"
  Body :: "string option"
  ContentType :: string
  BasicAuth :: "string \<times> string"

text \<open>What the HTTP client hands back: an error of its own, or a response with its
  status code, the bytes that could be read from its body, and the error that ended
  the reading, if any.\<close>

record response =
  StatusCode :: int
  RespBody :: string
  ReadErr :: "string option"

datatype http_result = ClientError string | Response response

text \<open>
  Everything outside the repository that the operations depend on is a field of the
  runtime: the HTTP client together with the server behind it, acting on an external
  state \<open>'s\<close>; whether the Go library rejects an address, and with which message; the
  texts that \<open>fmt.Errorf\<close> and the JSON errors render; \<open>json.Marshal\<close> of a script
  and of the arguments of a script (type \<open>'a\<close>); and the generator of fresh names.
\<close>

record ('s, 'a) runtime =
  client_Do :: "request \<Rightarrow> 's \<Rightarrow> http_result \<times> 's"
  url_error :: "string \<Rightarrow> string option"
  fmt_Errorf :: "string \<Rightarrow> string"
  status_code_text :: "string \<Rightarrow> string \<Rightarrow> int \<Rightarrow> string"
  json_error_text :: "json_error \<Rightarrow> string"
  json_Marshal_Script :: "Script \<Rightarrow> string"
  json_Marshal_args :: "'a \<Rightarrow> string + string"
  uuid_New :: "'s \<Rightarrow> string \<times> 's"

text \<open>The state threaded through the operations: the external state and, as a
  record of what happened, the requests handed to the HTTP client so far.\<close>

record 's world =
  ext :: 's
  sent :: "request list"

text \<open>The method \<open>Error()\<close> of an error value.\<close>

fun Error :: "('s, 'a) runtime \<Rightarrow> error \<Rightarrow> string" where
  "Error rt (ErrorString m) = m"
| "Error rt (JsonError e) = json_error_text rt e"

definition NewRequest ::
  "('s, 'a) runtime \<Rightarrow> Nexus \<Rightarrow> string \<Rightarrow> string \<Rightarrow> (string \<times> string) list option \<Rightarrow>
   string option \<Rightarrow> string \<Rightarrow> error + request" where
  "NewRequest rt n method endpoint args body contentType =
     (let ct = (if contentType = [] then ''application/json'' else contentType);
          u = host n @ ''/'' @ endpoint
      in case url_error rt u of
           Some m \<Rightarrow> Inl (ErrorString m)
         | None \<Rightarrow>
             Inr \<lparr>Method = method, URL = u, Args = args, Body = body, ContentType = ct,
                  BasicAuth = (username n, password n)\<rparr>)"

definition Do ::
  "('s, 'a) runtime \<Rightarrow> request \<Rightarrow> (int \<rightharpoonup> string) option \<Rightarrow> bool \<Rightarrow> 's world \<Rightarrow>
   (error + string) \<times> 's world" where
  "Do rt req statusMap resToErr w =
     (case client_Do rt req (ext w) of
        (r, s') \<Rightarrow>
          (let w' = \<lparr>ext = s', sent = sent w @ [req]\<rparr> in
           case r of
             ClientError m \<Rightarrow> (Inl (ErrorString m), w')
           | Response resp \<Rightarrow>
               if StatusCode resp \<ge> 300 then
                 (if resToErr then (Inl (ErrorString (RespBody resp)), w')
                  else (case (case statusMap of None \<Rightarrow> None | Some sm \<Rightarrow> sm (StatusCode resp)) of
                          Some status \<Rightarrow> (Inl (ErrorString (fmt_Errorf rt status)), w')
                        | None \<Rightarrow>
                            (Inl (ErrorString
                               (status_code_text rt (Method req) (URL req) (StatusCode resp))), w')))
               else (case ReadErr resp of
                       Some m \<Rightarrow> (Inl (ErrorString m), w')
                     | None \<Rightarrow> (Inr (RespBody resp), w'))))"

section \<open>The script operations\<close>

definition GetScript ::
  "('s, 'a) runtime \<Rightarrow> Nexus \<Rightarrow> string \<Rightarrow> 's world \<Rightarrow>
   (Script option \<times> error option) outcome \<times> 's world" where
  "GetScript rt n name w =
     (case NewRequest rt n ''GET'' (''service/rest/v1/script/'' @ name) None None [] of
        Inl e \<Rightarrow> (Return (None, Some e), w)
      | Inr req \<Rightarrow>
          (case Do rt req (Some [404 \<mapsto> ''Script '' @ name @ '' does not exist'']) False w of
             (Inl e, w1) \<Rightarrow> (Return (None, Some e), w1)
           | (Inr body, w1) \<Rightarrow>
               (case json_Unmarshal_Script body of
                  (script, Some e) \<Rightarrow> (Return (script, Some (JsonError e)), w1)
                | (None, None) \<Rightarrow> (Panic, w1)
                | (Some script, None) \<Rightarrow> (Return (Some script, None), w1))))"

definition marshalScriptArgs :: "('s, 'a) runtime \<Rightarrow> 'a option \<Rightarrow> error + string option" where
  "marshalScriptArgs rt args =
     (case args of
        None \<Rightarrow> Inr None
      | Some a \<Rightarrow>
          (case json_Marshal_args rt a of
             Inl m \<Rightarrow> Inl (ErrorString m)
           | Inr payload \<Rightarrow> Inr (Some payload)))"

definition ExecuteScript ::
  "('s, 'a) runtime \<Rightarrow> Nexus \<Rightarrow> string \<Rightarrow> 'a option \<Rightarrow> 's world \<Rightarrow>
   (ExecuteScriptResponse option \<times> error option) outcome \<times> 's world" where
  "ExecuteScript rt n name args w =
     (case marshalScriptArgs rt args of
        Inl e \<Rightarrow> (Return (None, Some e), w)
      | Inr payload \<Rightarrow>
          (case NewRequest rt n ''POST'' (''service/rest/v1/script/'' @ name @ ''/run'') None payload
                  ''text/plain'' of
             Inl e \<Rightarrow> (Return (None, Some e), w)
           | Inr req \<Rightarrow>
               (case Do rt req None True w of
                  (Inl e, w1) \<Rightarrow>
                    (case json_Unmarshal_Response (Error rt e) of
                       (res, Some je) \<Rightarrow> (Return (res, Some (JsonError je)), w1)
                     | (None, None) \<Rightarrow> (Panic, w1)
                     | (Some r, None) \<Rightarrow>
                         (case Result r of
                            None \<Rightarrow> (Panic, w1)
                          | Some m \<Rightarrow> (Return (Some r, Some (ErrorString m)), w1)))
                | (Inr body, w1) \<Rightarrow>
                    (case json_Unmarshal_Response body of
                       (res, Some je) \<Rightarrow> (Return (res, Some (JsonError je)), w1)
                     | (res, None) \<Rightarrow> (Return (res, None), w1)))))"

definition DeleteScript ::
  "('s, 'a) runtime \<Rightarrow> Nexus \<Rightarrow> string \<Rightarrow> 's world \<Rightarrow> error option outcome \<times> 's world" where
  "DeleteScript rt n name w =
     (case NewRequest rt n ''DELETE'' (''service/rest/v1/script/'' @ name) None None [] of
        Inl e \<Rightarrow> (Return (Some e), w)
      | Inr req \<Rightarrow>
          (case Do rt req (Some [404 \<mapsto> ''Script '' @ name @ '' does not exist'']) False w of
             (Inl e, w1) \<Rightarrow> (Return (Some e), w1)
           | (Inr body, w1) \<Rightarrow> (Return None, w1)))"

definition CreateScript ::
  "('s, 'a) runtime \<Rightarrow> Nexus \<Rightarrow> Script \<Rightarrow> 's world \<Rightarrow>
   (Script option \<times> error option) outcome \<times> 's world" where
  "CreateScript rt n script w =
     (case (Name script, Content script) of
        (Some name, Some content) \<Rightarrow>
          (case NewRequest rt n ''POST'' ''service/rest/v1/script'' None
                  (Some (json_Marshal_Script rt script)) [] of
             Inl e \<Rightarrow> (Return (None, Some e), w)
           | Inr req \<Rightarrow>
               (case Do rt req
                       (Some [500 \<mapsto> ''Script with name '' @ name @
                                      '' already exists, use UpdateScript instead'']) False w of
                  (Inl e, w1) \<Rightarrow> (Return (None, Some e), w1)
                | (Inr body, w1) \<Rightarrow>
                    (Return (Some \<lparr>Name = Name script, Content = Content script,
                                   Type = Type script\<rparr>, None), w1)))
      | _ \<Rightarrow>
          (Return (None, Some (ErrorString ''Script instance must contain a name and content'')), w))"

definition UpdateScript ::
  "('s, 'a) runtime \<Rightarrow> Nexus \<Rightarrow> Script \<Rightarrow> 's world \<Rightarrow>
   (Script option \<times> error option) outcome \<times> 's world" where
  "UpdateScript rt n script w =
     (case (Name script, Content script) of
        (Some name, Some content) \<Rightarrow>
          (case NewRequest rt n ''PUT'' (''service/rest/v1/script/'' @ name) None
                  (Some (json_Marshal_Script rt script)) [] of
             Inl e \<Rightarrow> (Return (None, Some e), w)
           | Inr req \<Rightarrow>
               (case Do rt req
                       (Some [404 \<mapsto> ''Script with name '' @ name @ '' doesn't exist'']) False w of
                  (Inl e, w1) \<Rightarrow> (Return (None, Some e), w1)
                | (Inr body, w1) \<Rightarrow>
                    (Return (Some \<lparr>Name = Name script, Content = Content script,
                                   Type = Type script\<rparr>, None), w1)))
      | _ \<Rightarrow>
          (Return (None, Some (ErrorString ''Script instance must contain a name and content'')), w))"

text \<open>The methods \<open>Execute\<close> and \<open>Delete\<close> of a script dereference its name.\<close>

definition Script_Execute ::
  "('s, 'a) runtime \<Rightarrow> Nexus \<Rightarrow> Script \<Rightarrow> 'a option \<Rightarrow> 's world \<Rightarrow>
   (ExecuteScriptResponse option \<times> error option) outcome \<times> 's world" where
  "Script_Execute rt n s args w =
     (case Name s of
        None \<Rightarrow> (Panic, w)
      | Some name \<Rightarrow> ExecuteScript rt n name args w)"

definition Script_Delete ::
  "('s, 'a) runtime \<Rightarrow> Nexus \<Rightarrow> Script \<Rightarrow> 's world \<Rightarrow> error option outcome \<times> 's world" where
  "Script_Delete rt n s w =
     (case Name s of
        None \<Rightarrow> (Panic, w)
      | Some name \<Rightarrow> DeleteScript rt n name w)"

text \<open>\<open>EphemeralScript.Execute\<close>.  The name is generated before \<open>CreateScript\<close> is
  called.  The deferred \<open>script.Delete()\<close> runs when the function leaves after the
  \<open>defer\<close> statement, also when \<open>script.Execute\<close> panicked, and what it returns is
  dropped.\<close>

definition EphemeralScript_Execute ::
  "('s, 'a) runtime \<Rightarrow> Nexus \<Rightarrow> Script \<Rightarrow> 'a option \<Rightarrow> 's world \<Rightarrow>
   (ExecuteScriptResponse option \<times> error option) outcome \<times> 's world" where
  "EphemeralScript_Execute rt n s args w =
     (case uuid_New rt (ext w) of
        (u, s0) \<Rightarrow>
          (case CreateScript rt n \<lparr>Name = Some u, Content = Content s, Type = ScriptTypeGroovy\<rparr>
                  (w\<lparr>ext := s0\<rparr>) of
             (Panic, w1) \<Rightarrow> (Panic, w1)
           | (Return (script, Some e), w1) \<Rightarrow> (Return (None, Some e), w1)
           | (Return (None, None), w1) \<Rightarrow> (Panic, w1)
           | (Return (Some script, None), w1) \<Rightarrow>
               (case Script_Execute rt n script args w1 of
                  (r, w2) \<Rightarrow>
                    (case Script_Delete rt n script w2 of
                       (Panic, w3) \<Rightarrow> (Panic, w3)
                     | (Return d, w3) \<Rightarrow> (r, w3)))))"

text \<open>\<open>ensureAndExecute\<close>.  The comparison dereferences the content of the script at
  hand and the content of the receiver.\<close>

definition ensureAndExecute ::
  "('s, 'a) runtime \<Rightarrow> Nexus \<Rightarrow> Script \<Rightarrow> 'a option \<Rightarrow> 's world \<Rightarrow>
   (ExecuteScriptResponse option \<times> error option) outcome \<times> 's world" where
  "ensureAndExecute rt n s args w =
     (case Name s of
        None \<Rightarrow> (Panic, w)
      | Some name \<Rightarrow>
          (case (case GetScript rt n name w of
                   (Panic, w1) \<Rightarrow> (Panic, w1)
                 | (Return (script, Some e), w1) \<Rightarrow>
                     CreateScript rt n \<lparr>Name = Name s, Content = Content s, Type = Type s\<rparr> w1
                 | (Return (script, None), w1) \<Rightarrow> (Return (script, None), w1)) of
             (Panic, w2) \<Rightarrow> (Panic, w2)
           | (Return (script, Some e), w2) \<Rightarrow> (Return (None, Some e), w2)
           | (Return (None, None), w2) \<Rightarrow> (Panic, w2)
           | (Return (Some script, None), w2) \<Rightarrow>
               (case (Content script, Content s) of
                  (Some remote, Some desired) \<Rightarrow>
                    if remote \<noteq> desired then
                      (case UpdateScript rt n \<lparr>Name = Name s, Content = Content s, Type = Type s\<rparr> w2 of
                         (Panic, w3) \<Rightarrow> (Panic, w3)
                       | (Return (script', Some e), w3) \<Rightarrow> (Return (None, Some e), w3)
                       | (Return (None, None), w3) \<Rightarrow> (Panic, w3)
                       | (Return (Some script', None), w3) \<Rightarrow> Script_Execute rt n script' args w3)
                    else Script_Execute rt n script args w2
                | _ \<Rightarrow> (Panic, w2))))"

section \<open>Assets, components and their listings\<close>

text \<open>\<open>Asset\<close> and \<open>Component\<close> as the source declares them (the fields \<open>Repository\<close> and
  \<open>Format\<close> of an asset, and \<open>ID\<close>, \<open>Repository\<close>, \<open>Format\<close> and \<open>Name\<close> of a component,
  carry the name of their struct here, since field names are global).  A slice of
  pointers is a list of options, a \<open>*map[string]string\<close> an optional association
  list.\<close>

record Asset =
  DownloadURL :: "string option"
  Path :: "string option"
  ID :: "string option"
  AssetRepository :: "string option"
  AssetFormat :: "string option"
  Checksum :: "(string \<times> string) list option"

record Component =
  ComponentID :: "string option"
  ComponentRepository :: "string option"
  ComponentFormat :: "string option"
  Group :: "string option"
  ComponentName :: "string option"
  Version :: "string option"
  Assets :: "Asset option list"

text \<open>\<open>ListAssetsInput\<close> and \<open>ListComponentsInput\<close> have the same two fields, and
  \<open>ListAssetsResponse\<close> and \<open>ListComponentsResponse\<close> differ in the type of their
  items only (the field \<open>ContinuationToken\<close> of a response is \<open>NextToken\<close> here).\<close>

record ListInput =
  Repository :: "string option"
  ContinuationToken :: "string option"

record 'i ListResponse =
  Items :: "'i option list"
  NextToken :: "string option"

definition no_Asset :: Asset where
  "no_Asset = \<lparr>DownloadURL = None, Path = None, ID = None, AssetRepository = None,
                AssetFormat = None, Checksum = None\<rparr>"

definition no_Component :: Component where
  "no_Component = \<lparr>ComponentID = None, ComponentRepository = None, ComponentFormat = None,
                    Group = None, ComponentName = None, Version = None, Assets = []\<rparr>"

text \<open>Storing into a \<open>*map[string]string\<close>: each member of an object sets its key, to
  the empty string when its value is not a string (a type error unless it is \<open>null\<close>).\<close>

fun store_entry ::
  "(string \<times> string) list \<times> json_error option \<Rightarrow> string \<times> json \<Rightarrow>
   (string \<times> string) list \<times> json_error option" where
  "store_entry (m, e) (k, v) =
     (case v of
        JString s \<Rightarrow> (AList.update k s m, e)
      | JNull \<Rightarrow> (AList.update k [] m, e)
      | _ \<Rightarrow> (AList.update k [] m, first_error e (Some UnmarshalTypeError)))"

definition store_map ::
  "(string \<times> string) list option \<Rightarrow> json \<Rightarrow> (string \<times> string) list option \<times> json_error option" where
  "store_map cur v =
     (case v of
        JNull \<Rightarrow> (None, None)
      | JObject ms \<Rightarrow>
          (case foldl store_entry (case cur of None \<Rightarrow> [] | Some m \<Rightarrow> m, None) ms of
             (m, e) \<Rightarrow> (Some m, e))
      | _ \<Rightarrow> (Some (case cur of None \<Rightarrow> [] | Some m \<Rightarrow> m), Some UnmarshalTypeError))"

fun store_Asset :: "Asset \<times> json_error option \<Rightarrow> string \<times> json \<Rightarrow> Asset \<times> json_error option" where
  "store_Asset (a, e) (k, v) =
     (if fold_name k = ''DOWNLOADURL'' then
        (case store_string (DownloadURL a) v of (x, e') \<Rightarrow> (a\<lparr>DownloadURL := x\<rparr>, first_error e e'))
      else if fold_name k = ''PATH'' then
        (case store_string (Path a) v of (x, e') \<Rightarrow> (a\<lparr>Path := x\<rparr>, first_error e e'))
      else if fold_name k = ''ID'' then
        (case store_string (ID a) v of (x, e') \<Rightarrow> (a\<lparr>ID := x\<rparr>, first_error e e'))
      else if fold_name k = ''REPOSITORY'' then
        (case store_string (AssetRepository a) v of
           (x, e') \<Rightarrow> (a\<lparr>AssetRepository := x\<rparr>, first_error e e'))
      else if fold_name k = ''FORMAT'' then
        (case store_string (AssetFormat a) v of (x, e') \<Rightarrow> (a\<lparr>AssetFormat := x\<rparr>, first_error e e'))
      else if fold_name k = ''CHECKSUM'' then
        (case store_map (Checksum a) v of (x, e') \<Rightarrow> (a\<lparr>Checksum := x\<rparr>, first_error e e'))
      else (a, e))"

text \<open>Storing into a pointer to a struct: \<open>null\<close> makes it nil, an object fills the
  struct it points to (a new one when it was nil), anything else is a type error after
  the allocation.\<close>

definition store_Asset_ptr :: "Asset option \<Rightarrow> json \<Rightarrow> Asset option \<times> json_error option" where
  "store_Asset_ptr cur v =
     (case v of
        JNull \<Rightarrow> (None, None)
      | JObject ms \<Rightarrow>
          (case foldl store_Asset (case cur of None \<Rightarrow> no_Asset | Some a \<Rightarrow> a, None) ms of
             (a, e) \<Rightarrow> (Some a, e))
      | _ \<Rightarrow> (Some (case cur of None \<Rightarrow> no_Asset | Some a \<Rightarrow> a), Some UnmarshalTypeError))"

text \<open>Storing into a slice of pointers: the elements of an array are stored one by
  one over the elements the slice has; \<open>null\<close> makes the slice nil; anything else is a
  type error and leaves the slice.\<close>

fun store_elements ::
  "('x option \<Rightarrow> json \<Rightarrow> 'x option \<times> json_error option) \<Rightarrow> 'x option list \<Rightarrow> json list \<Rightarrow>
   'x option list \<times> json_error option" where
  "store_elements store cur [] = ([], None)"
| "store_elements store cur (v # vs) =
     (case store (case cur of [] \<Rightarrow> None | c # cs \<Rightarrow> c) v of
        (x, e) \<Rightarrow>
          (case store_elements store (drop 1 cur) vs of
             (xs, e') \<Rightarrow> (x # xs, first_error e e')))"

definition store_slice ::
  "('x option \<Rightarrow> json \<Rightarrow> 'x option \<times> json_error option) \<Rightarrow> 'x option list \<Rightarrow> json \<Rightarrow>
   'x option list \<times> json_error option" where
  "store_slice store cur v =
     (case v of
        JNull \<Rightarrow> ([], None)
      | JArray vs \<Rightarrow> store_elements store cur vs
      | _ \<Rightarrow> (cur, Some UnmarshalTypeError))"

fun store_Component ::
  "Component \<times> json_error option \<Rightarrow> string \<times> json \<Rightarrow> Component \<times> json_error option" where
  "store_Component (c, e) (k, v) =
     (if fold_name k = ''ID'' then
        (case store_string (ComponentID c) v of (x, e') \<Rightarrow> (c\<lparr>ComponentID := x\<rparr>, first_error e e'))
      else if fold_name k = ''REPOSITORY'' then
        (case store_string (ComponentRepository c) v of
           (x, e') \<Rightarrow> (c\<lparr>ComponentRepository := x\<rparr>, first_error e e'))
      else if fold_name k = ''FORMAT'' then
        (case store_string (ComponentFormat c) v of
           (x, e') \<Rightarrow> (c\<lparr>ComponentFormat := x\<rparr>, first_error e e'))
      else if fold_name k = ''GROUP'' then
        (case store_string (Group c) v of (x, e') \<Rightarrow> (c\<lparr>Group := x\<rparr>, first_error e e'))
      else if fold_name k = ''NAME'' then
        (case store_string (ComponentName c) v of
           (x, e') \<Rightarrow> (c\<lparr>ComponentName := x\<rparr>, first_error e e'))
      else if fold_name k = ''VERSION'' then
        (case store_string (Version c) v of (x, e') \<Rightarrow> (c\<lparr>Version := x\<rparr>, first_error e e'))
      else if fold_name k = ''ASSETS'' then
        (case store_slice store_Asset_ptr (Assets c) v of
           (x, e') \<Rightarrow> (c\<lparr>Assets := x\<rparr>, first_error e e'))
      else (c, e))"

definition store_Component_ptr :: "Component option \<Rightarrow> json \<Rightarrow> Component option \<times> json_error option" where
  "store_Component_ptr cur v =
     (case v of
        JNull \<Rightarrow> (None, None)
      | JObject ms \<Rightarrow>
          (case foldl store_Component (case cur of None \<Rightarrow> no_Component | Some c \<Rightarrow> c, None) ms of
             (c, e) \<Rightarrow> (Some c, e))
      | _ \<Rightarrow> (Some (case cur of None \<Rightarrow> no_Component | Some c \<Rightarrow> c), Some UnmarshalTypeError))"

fun store_ListResponse ::
  "('i option \<Rightarrow> json \<Rightarrow> 'i option \<times> json_error option) \<Rightarrow>
   'i ListResponse \<times> json_error option \<Rightarrow> string \<times> json \<Rightarrow> 'i ListResponse \<times> json_error option" where
  "store_ListResponse store (r, e) (k, v) =
     (if fold_name k = ''ITEMS'' then
        (case store_slice store (Items r) v of (x, e') \<Rightarrow> (r\<lparr>Items := x\<rparr>, first_error e e'))
      else if fold_name k = ''CONTINUATIONTOKEN'' then
        (case store_string (NextToken r) v of (x, e') \<Rightarrow> (r\<lparr>NextToken := x\<rparr>, first_error e e'))
      else (r, e))"

text \<open>\<open>json.Unmarshal(text, &res)\<close> with \<open>res\<close> a nil pointer to a listing response
  whose items are stored by \<open>store\<close>.\<close>

definition json_Unmarshal_ListResponse ::
  "('i option \<Rightarrow> json \<Rightarrow> 'i option \<times> json_error option) \<Rightarrow> string \<Rightarrow>
   'i ListResponse option \<times> json_error option" where
  "json_Unmarshal_ListResponse store doc =
     (case json_parse doc of
        None \<Rightarrow> (None, Some SyntaxError)
      | Some JNull \<Rightarrow> (None, None)
      | Some (JObject ms) \<Rightarrow>
          (case foldl (store_ListResponse store) (\<lparr>Items = [], NextToken = None\<rparr>, None) ms of
             (r, e) \<Rightarrow> (Some r, e))
      | Some _ \<Rightarrow> (Some \<lparr>Items = [], NextToken = None\<rparr>, Some UnmarshalTypeError))"

section \<open>The listing operations and the traversal of their pages\<close>

definition newListAssetsReq ::
  "('s, 'a) runtime \<Rightarrow> Nexus \<Rightarrow> string \<Rightarrow> string option \<Rightarrow> error + request" where
  "newListAssetsReq rt n repository token =
     NewRequest rt n ''GET'' ''service/rest/v1/assets''
       (Some ((''repository'', repository) #
              (case token of None \<Rightarrow> [] | Some t \<Rightarrow> [(''continuationToken'', t)])))
       None []"

text \<open>\<open>ListAssets\<close>.  After the decoding, the loop over the items binds the client to
  each of them: it dereferences \<open>res\<close> and every item.\<close>

definition ListAssets ::
  "('s, 'a) runtime \<Rightarrow> Nexus \<Rightarrow> ListInput \<Rightarrow> 's world \<Rightarrow>
   (Asset ListResponse option \<times> error option) outcome \<times> 's world" where
  "ListAssets rt n input w =
     (case Repository input of
        None \<Rightarrow> (Return (None, Some (ErrorString ''Repository is required for ListAssets'')), w)
      | Some repository \<Rightarrow>
          (case newListAssetsReq rt n repository (ContinuationToken input) of
             Inl e \<Rightarrow> (Return (None, Some e), w)
           | Inr req \<Rightarrow>
               (case Do rt req
                       (Some [403 \<mapsto> ''Insufficient permissions to list assets in '' @ repository,
                              404 \<mapsto> ''Repository '' @ repository @ '' does not exist'']) False w of
                  (Inl e, w1) \<Rightarrow> (Return (None, Some e), w1)
                | (Inr body, w1) \<Rightarrow>
                    (case json_Unmarshal_ListResponse store_Asset_ptr body of
                       (res, Some e) \<Rightarrow> (Return (res, Some (JsonError e)), w1)
                     | (None, None) \<Rightarrow> (Panic, w1)
                     | (Some r, None) \<Rightarrow>
                         if None \<in> set (Items r) then (Panic, w1)
                         else (Return (Some r, None), w1)))))"

definition newListComponentsReq ::
  "('s, 'a) runtime \<Rightarrow> Nexus \<Rightarrow> string \<Rightarrow> string option \<Rightarrow> error + request" where
  "newListComponentsReq rt n repository token =
     NewRequest rt n ''GET'' ''service/rest/v1/components''
       (Some ((''repository'', repository) #
              (case token of None \<Rightarrow> [] | Some t \<Rightarrow> [(''continuationToken'', t)])))
       None []"

text \<open>\<open>ListComponents\<close>.  Its loop also binds the client to the assets of each
  component.\<close>

definition ListComponents ::
  "('s, 'a) runtime \<Rightarrow> Nexus \<Rightarrow> ListInput \<Rightarrow> 's world \<Rightarrow>
   (Component ListResponse option \<times> error option) outcome \<times> 's world" where
  "ListComponents rt n input w =
     (case Repository input of
        None \<Rightarrow> (Return (None, Some (ErrorString ''Repository is required for ListComponents'')), w)
      | Some repository \<Rightarrow>
          (case newListComponentsReq rt n repository (ContinuationToken input) of
             Inl e \<Rightarrow> (Return (None, Some e), w)
           | Inr req \<Rightarrow>
               (case Do rt req
                       (Some [403 \<mapsto> ''Insufficient permissions to list components in '' @ repository,
                              404 \<mapsto> ''Repository '' @ repository @ '' does not exist'']) False w of
                  (Inl e, w1) \<Rightarrow> (Return (None, Some e), w1)
                | (Inr body, w1) \<Rightarrow>
                    (case json_Unmarshal_ListResponse store_Component_ptr body of
                       (res, Some e) \<Rightarrow> (Return (res, Some (JsonError e)), w1)
                     | (None, None) \<Rightarrow> (Panic, w1)
                     | (Some r, None) \<Rightarrow>
                         if None \<in> set (Items r) \<or>
                            (\<exists>c \<in> set (Items r). case c of None \<Rightarrow> False | Some x \<Rightarrow> None \<in> set (Assets x))
                         then (Panic, w1)
                         else (Return (Some r, None), w1)))))"

text \<open>
  \<open>ListAssetsPages\<close> and \<open>ListComponentsPages\<close> have the same body, up to the listing
  operation they call and the types of its input and response; \<open>ListPages\<close> is that
  body, with the listing operation as the argument \<open>fetch\<close>.  The callback acts on the
  external state.  The state of the traversal is the world together with a record of
  the calls of the callback so far: the page and the flag each was given.  The
  function calls itself for the next page as long as the pages carry tokens and the
  callback asks for more, so it need not return: it returns \<open>None\<close> then.
\<close>

partial_function (option) ListPages ::
  "(ListInput \<Rightarrow> 's world \<Rightarrow> ('i ListResponse option \<times> error option) outcome \<times> 's world) \<Rightarrow>
   ListInput \<Rightarrow> ('i ListResponse \<Rightarrow> bool \<Rightarrow> 's \<Rightarrow> (bool \<times> error option) \<times> 's) \<Rightarrow>
   's world \<times> ('i ListResponse \<times> bool) list \<Rightarrow>
   (error option outcome \<times> 's world \<times> ('i ListResponse \<times> bool) list) option" where
  "ListPages fetch input cb st =
     (case fetch input (fst st) of
        (Panic, w1) \<Rightarrow> Some (Panic, w1, snd st)
      | (Return (res, Some e), w1) \<Rightarrow> Some (Return (Some e), w1, snd st)
      | (Return (None, None), w1) \<Rightarrow> Some (Panic, w1, snd st)
      | (Return (Some res, None), w1) \<Rightarrow>
          (case NextToken res of
             None \<Rightarrow>
               (case cb res True (ext w1) of
                  ((cont, err), s2) \<Rightarrow> Some (Return err, w1\<lparr>ext := s2\<rparr>, snd st @ [(res, True)]))
           | Some token \<Rightarrow>
               (case cb res False (ext w1) of
                  ((cont, err), s2) \<Rightarrow>
                    (case err of
                       Some e \<Rightarrow> Some (Return (Some e), w1\<lparr>ext := s2\<rparr>, snd st @ [(res, False)])
                     | None \<Rightarrow>
                         if \<not> cont then Some (Return None, w1\<lparr>ext := s2\<rparr>, snd st @ [(res, False)])
                         else ListPages fetch
                                \<lparr>Repository = Repository input, ContinuationToken = Some token\<rparr> cb
                                (w1\<lparr>ext := s2\<rparr>, snd st @ [(res, False)])))))"

definition ListAssetsPages ::
  "('s, 'a) runtime \<Rightarrow> Nexus \<Rightarrow> ListInput \<Rightarrow>
   (Asset ListResponse \<Rightarrow> bool \<Rightarrow> 's \<Rightarrow> (bool \<times> error option) \<times> 's) \<Rightarrow>
   's world \<times> (Asset ListResponse \<times> bool) list \<Rightarrow>
   (error option outcome \<times> 's world \<times> (Asset ListResponse \<times> bool) list) option" where
  "ListAssetsPages rt n = ListPages (ListAssets rt n)"

definition ListComponentsPages ::
  "('s, 'a) runtime \<Rightarrow> Nexus \<Rightarrow> ListInput \<Rightarrow>
   (Component ListResponse \<Rightarrow> bool \<Rightarrow> 's \<Rightarrow> (bool \<times> error option) \<times> 's) \<Rightarrow>
   's world \<times> (Component ListResponse \<times> bool) list \<Rightarrow>
   (error option outcome \<times> 's world \<times> (Component ListResponse \<times> bool) list) option" where
  "ListComponentsPages rt n = ListPages (ListComponents rt n)"

section \<open>Requests and a runtime to run the operations on\<close>

text \<open>The requests the script operations build, named for the statements below.\<close>

definition script_request :: "Nexus \<Rightarrow> string \<Rightarrow> string \<Rightarrow> string option \<Rightarrow> string \<Rightarrow> request" where
  "script_request n method endpoint body ctype =
     \<lparr>Method = method, URL = host n @ ''/'' @ endpoint, Args = None, Body = body,
      ContentType = ctype, BasicAuth = (username n, password n)\<rparr>"

definition get_request :: "Nexus \<Rightarrow> string \<Rightarrow> request" where
  "get_request n name =
     script_request n ''GET'' (''service/rest/v1/script/'' @ name) None ''application/json''"

definition create_request :: "('s, 'a) runtime \<Rightarrow> Nexus \<Rightarrow> Script \<Rightarrow> request" where
  "create_request rt n script =
     script_request n ''POST'' ''service/rest/v1/script'' (Some (json_Marshal_Script rt script))
       ''application/json''"

definition update_request :: "('s, 'a) runtime \<Rightarrow> Nexus \<Rightarrow> string \<Rightarrow> Script \<Rightarrow> request" where
  "update_request rt n name script =
     script_request n ''PUT'' (''service/rest/v1/script/'' @ name)
       (Some (json_Marshal_Script rt script)) ''application/json''"

definition run_request :: "Nexus \<Rightarrow> string \<Rightarrow> string option \<Rightarrow> request" where
  "run_request n name payload =
     script_request n ''POST'' (''service/rest/v1/script/'' @ name @ ''/run'') payload ''text/plain''"

definition delete_request :: "Nexus \<Rightarrow> string \<Rightarrow> request" where
  "delete_request n name =
     script_request n ''DELETE'' (''service/rest/v1/script/'' @ name) None ''application/json''"

text \<open>A runtime without external state whose server answers each request by a given
  function, and a client and a world to start from.\<close>

definition scripted_runtime :: "(request \<Rightarrow> http_result) \<Rightarrow> (unit, unit) runtime" where
  "scripted_runtime answer =
     \<lparr>client_Do = (\<lambda>req s. (answer req, s)),
      url_error = (\<lambda>u. None),
      fmt_Errorf = (\<lambda>m. m),
      status_code_text = (\<lambda>m u c. m @ '' '' @ u @ '' returned an unexpected status code''),
      json_error_text = (\<lambda>e. ''json error''),
      json_Marshal_Script =
        (\<lambda>s. (case Name s of None \<Rightarrow> [] | Some x \<Rightarrow> x) @ '':'' @
              (case Content s of None \<Rightarrow> [] | Some x \<Rightarrow> x)),
      json_Marshal_args = (\<lambda>a. Inr ''{}''),
      uuid_New = (\<lambda>s. (''0b5a3c1e-7d2f-4e8a-9c6b-1f2e3d4c5b6a'', s))\<rparr>"

definition status_with :: "int \<Rightarrow> string \<Rightarrow> http_result" where
  "status_with code body = Response \<lparr>StatusCode = code, RespBody = body, ReadErr = None\<rparr>"

definition localhost :: Nexus where
  "localhost = \<lparr>host = ''http://localhost:8081'', username = ''admin'', password = ''admin123''\<rparr>"

definition world0 :: "unit world" where
  "world0 = \<lparr>ext = (), sent = []\<rparr>"


text \<open>The requests issued between two worlds, and the operation of the script API
  that a request stands for.\<close>

definition issued :: "'s world \<Rightarrow> 's world \<Rightarrow> request list" where
  "issued w w' = drop (length (sent w)) (sent w')"

datatype call = Get | Create | Update | Execute | Delete | Other

definition call_of :: "request \<Rightarrow> call" where
  "call_of r =
     (if Method r = ''GET'' then Get
      else if Method r = ''PUT'' then Update
      else if Method r = ''DELETE'' then Delete
      else if Method r = ''POST'' then (if ContentType r = ''text/plain'' then Execute else Create)
      else Other)"

text \<open>The script of the scenario "p1" with the content "return 1".\<close>

definition p1 :: Script where
  "p1 = \<lparr>Name = Some ''p1'', Content = Some ''return 1'', Type = ScriptTypeGroovy\<rparr>"

text \<open>A server that cannot be reached for GET requests, accepts what is written to
  it, and runs every script with the result "1".\<close>

definition get_unreachable :: "request \<Rightarrow> http_result" where
  \<open>get_unreachable r =
     (if Method r = ''GET'' then ClientError ''connection refused''
      else if ContentType r = ''text/plain'' then status_with 200 ''{"name":"p1","result":"1"}''
      else status_with 204 [])\<close>

text \<open>A server on which the script has the given stored text.\<close>

definition holding :: "string \<Rightarrow> request \<Rightarrow> http_result" where
  \<open>holding stored r =
     (if Method r = ''GET'' then status_with 200 stored
      else if ContentType r = ''text/plain'' then status_with 200 ''{"name":"p1","result":"1"}''
      else status_with 204 [])\<close>

text \<open>Orders of calls: \<open>skip_call c\<close> drops a leading \<open>c\<close>, if there is one.\<close>

definition skip_call :: "call \<Rightarrow> call list \<Rightarrow> call list" where
  "skip_call c cs = (case cs of [] \<Rightarrow> [] | d # ds \<Rightarrow> if d = c then ds else d # ds)"

definition skip_create_or_update :: "call list \<Rightarrow> call list" where
  "skip_create_or_update cs =
     (case cs of [] \<Rightarrow> [] | d # ds \<Rightarrow> if d = Create \<or> d = Update then ds else d # ds)"

definition bridge_order :: "call list \<Rightarrow> bool" where
  "bridge_order cs = (skip_call Execute (skip_create_or_update (skip_call Get cs)) = [])"

definition ephemeral_order :: "call list \<Rightarrow> bool" where
  "ephemeral_order cs = (skip_call Delete (skip_call Execute (skip_call Create cs)) = [])"

text \<open>A server that answers every request alike.\<close>

definition always :: "int \<Rightarrow> string \<Rightarrow> request \<Rightarrow> http_result" where
  "always code body r = status_with code body"

text \<open>The name that the generator of \<open>scripted_runtime\<close> yields.\<close>

definition generated_name :: string where
  "generated_name = ''0b5a3c1e-7d2f-4e8a-9c6b-1f2e3d4c5b6a''"

text \<open>A server that accepts what is written to it and on which every execution
  raises the exception "boom".\<close>

definition raising :: "request \<Rightarrow> http_result" where
  \<open>raising r =
     (if ContentType r = ''text/plain'' then status_with 500 ''{"name":"x","result":"boom"}''
      else status_with 204 [])\<close>


text \<open>The pages that the successive fetches of a traversal yield, when the callback
  asks for more on each of them and reports no error: each page but the last carries
  the token the next page is fetched with, and the last page carries none.\<close>

fun served ::
  "(ListInput \<Rightarrow> 's world \<Rightarrow> ('i ListResponse option \<times> error option) outcome \<times> 's world) \<Rightarrow>
   ('i ListResponse \<Rightarrow> bool \<Rightarrow> 's \<Rightarrow> (bool \<times> error option) \<times> 's) \<Rightarrow>
   ListInput \<Rightarrow> 's world \<Rightarrow> 'i ListResponse list \<Rightarrow> bool" where
  "served fetch cb input w [] = False"
| "served fetch cb input w (p # ps) =
     (case fetch input w of
        (Return (Some res, None), w1) \<Rightarrow>
          res = p \<and>
          fst (cb p True (ext w1)) = (True, None) \<and>
          fst (cb p False (ext w1)) = (True, None) \<and>
          (case NextToken p of
             None \<Rightarrow> ps = []
           | Some token \<Rightarrow>
               ps \<noteq> [] \<and>
               served fetch cb \<lparr>Repository = Repository input, ContinuationToken = Some token\<rparr>
                 (w1\<lparr>ext := snd (cb p False (ext w1))\<rparr>) ps)
      | _ \<Rightarrow> False)"

text \<open>The flags of the calls on \<open>k\<close> pages: false on all but the last.\<close>

definition last_flags :: "nat \<Rightarrow> bool list" where
  "last_flags k = replicate (k - 1) False @ [True]"

text \<open>The listing of the scenario with two pages: the items a and b with the token
  "tok1", then the item c without a token.\<close>

definition two_pages :: "request \<Rightarrow> http_result" where
  \<open>two_pages r =
     (if Args r = Some [(''repository'', ''my-repo''), (''continuationToken'', ''tok1'')]
      then status_with 200 ''{"items":[{"id":"c"}]}''
      else status_with 200 ''{"items":[{"id":"a"},{"id":"b"}],"continuationToken":"tok1"}'')\<close>

definition asset :: "string \<Rightarrow> Asset option" where
  "asset i = Some (no_Asset\<lparr>ID := Some i\<rparr>)"

definition component :: "string \<Rightarrow> Component option" where
  "component i = Some (no_Component\<lparr>ComponentID := Some i\<rparr>)"

definition first_page :: "(string \<Rightarrow> 'i option) \<Rightarrow> 'i ListResponse" where
  "first_page item = \<lparr>Items = [item ''a'', item ''b''], NextToken = Some ''tok1''\<rparr>"

definition second_page :: "(string \<Rightarrow> 'i option) \<Rightarrow> 'i ListResponse" where
  "second_page item = \<lparr>Items = [item ''c''], NextToken = None\<rparr>"

definition my_repo :: "string option \<Rightarrow> ListInput" where
  "my_repo token = \<lparr>Repository = Some ''my-repo'', ContinuationToken = token\<rparr>"

text \<open>Callbacks without effect: one that always asks for more, one that never does.\<close>

definition keep_going :: "'p \<Rightarrow> bool \<Rightarrow> unit \<Rightarrow> (bool \<times> error option) \<times> unit" where
  "keep_going res is_last s = ((True, None), s)"

definition stop_now :: "'p \<Rightarrow> bool \<Rightarrow> unit \<Rightarrow> (bool \<times> error option) \<times> unit" where
  "stop_now res is_last s = ((False, None), s)"

definition list_request :: "string \<Rightarrow> string option \<Rightarrow> request" where
  "list_request endpoint token =
     \<lparr>Method = ''GET'', URL = ''http://localhost:8081/service/rest/v1/'' @ endpoint,
      Args = Some ((''repository'', ''my-repo'') #
                   (case token of None \<Rightarrow> [] | Some t \<Rightarrow> [(''continuationToken'', t)])),
      Body = None, ContentType = ''application/json'', BasicAuth = (''admin'', ''admin123'')\<rparr>"

text \<open>The requests that one step of an invoker issues: the request of the step, or
  none when the step stops before it has a request to send (a script without name or
  content, arguments that cannot be marshalled, an address that the library
  rejects).\<close>

definition get_calls :: "('s, 'a) runtime \<Rightarrow> Nexus \<Rightarrow> string \<Rightarrow> request list" where
  "get_calls rt n name =
     (if url_error rt (URL (get_request n name)) = None then [get_request n name] else [])"

definition create_calls :: "('s, 'a) runtime \<Rightarrow> Nexus \<Rightarrow> Script \<Rightarrow> request list" where
  "create_calls rt n script =
     (if Name script \<noteq> None \<and> Content script \<noteq> None \<and>
         url_error rt (URL (create_request rt n script)) = None
      then [create_request rt n script] else [])"

definition update_calls :: "('s, 'a) runtime \<Rightarrow> Nexus \<Rightarrow> Script \<Rightarrow> request list" where
  "update_calls rt n script =
     (case Name script of
        None \<Rightarrow> []
      | Some name \<Rightarrow>
          if Content script \<noteq> None \<and> url_error rt (URL (update_request rt n name script)) = None
          then [update_request rt n name script] else [])"

definition run_calls :: "('s, 'a) runtime \<Rightarrow> Nexus \<Rightarrow> Script \<Rightarrow> 'a option \<Rightarrow> request list" where
  "run_calls rt n script args =
     (case (Name script, marshalScriptArgs rt args) of
        (Some name, Inr payload) \<Rightarrow>
          if url_error rt (URL (run_request n name payload)) = None
          then [run_request n name payload] else []
      | _ \<Rightarrow> [])"

definition delete_calls :: "('s, 'a) runtime \<Rightarrow> Nexus \<Rightarrow> string \<Rightarrow> request list" where
  "delete_calls rt n name =
     (if url_error rt (URL (delete_request n name)) = None then [delete_request n name] else [])"

section \<open>The bound of the JSON parser\<close>

text \<open>Every successful parse consumes a character, so the bound that \<open>json_parse\<close>
  passes is never what stops a parse: any larger bound gives the same result.\<close>

lemma skip_space_length: "length (skip_space s) \<le> length s"
  by (induction s) auto

lemma skip_space_Cons: "skip_space s = c # cs \<Longrightarrow> length cs < length s"
  using skip_space_length [of s] by simp

lemma scan_digits_length: "scan_digits s = (ds, r) \<Longrightarrow> length r \<le> length s"
  by (auto simp: scan_digits_def length_dropWhile_le)

lemma scan_int_length: "scan_int s = Some (i, r) \<Longrightarrow> length r < length s"
  by (auto simp: scan_int_def split: list.splits if_splits prod.splits dest!: scan_digits_length)

lemma scan_frac_length: "scan_frac s = Some (f, r) \<Longrightarrow> length r \<le> length s"
  by (auto simp: scan_frac_def split: list.splits if_splits prod.splits dest!: scan_digits_length)

lemma scan_exp_length: "scan_exp s = Some (e, r) \<Longrightarrow> length r \<le> length s"
  by (auto simp: scan_exp_def split: list.splits if_splits prod.splits dest!: scan_digits_length)


lemma scan_number_length:
  assumes "scan_number s = Some (n, r)"
  shows "length r < length s"
proof -
  obtain sg r0 where a: "(case s of [] \<Rightarrow> ([], s) | c # cs \<Rightarrow> if c = CHR ''-'' then ([c], cs) else ([], s)) = (sg, r0)"
    by (cases "(case s of [] \<Rightarrow> ([], s) | c # cs \<Rightarrow> if c = CHR ''-'' then ([c], cs) else ([], s))")
  then have l0: "length r0 \<le> length s" by (auto split: list.splits if_splits)
  from assms a obtain i r1 f r2 e where
    i: "scan_int r0 = Some (i, r1)" and f: "scan_frac r1 = Some (f, r2)" and e: "scan_exp r2 = Some (e, r)"
    unfolding scan_number_def by (auto split: option.splits)
  from scan_int_length [OF i] scan_frac_length [OF f] scan_exp_length [OF e] l0
  show ?thesis by simp
qed

lemma scan_string_length: "scan_string s = Some (raw, r) \<Longrightarrow> length r < length s"
proof (induction s arbitrary: raw r rule: length_induct)
  case (1 s)
  show ?case
  proof (cases s)
    case Nil
    with 1 show ?thesis by simp
  next
    case (Cons c cs)
    note IH = "1.IH" [rule_format]
    consider (q) "c = CHR 0x22" | (b) "c \<noteq> CHR 0x22" "c = CHR 0x5C" | (o) "c \<noteq> CHR 0x22" "c \<noteq> CHR 0x5C"
      by blast
    then show ?thesis
    proof cases
      case q
      with "1.prems" Cons show ?thesis by simp
    next
      case o
      with "1.prems" Cons obtain raw' where "scan_string cs = Some (raw', r)"
        by (auto split: if_splits option.splits)
      from IH [OF _ this] Cons show ?thesis by simp
    next
      case b
      with "1.prems" Cons obtain e r' where cs: "cs = e # r'"
        by (cases cs) auto
      show ?thesis
      proof (cases "is_escape e")
        case True
        with "1.prems" Cons b cs obtain raw' where "scan_string r' = Some (raw', r)"
          by (auto split: option.splits)
        from IH [OF _ this] Cons cs show ?thesis by simp
      next
        case False
        with "1.prems" Cons b cs obtain h1 h2 h3 h4 r'' raw' where
          "r' = h1 # h2 # h3 # h4 # r''" "scan_string r'' = Some (raw', r)"
          by (auto split: if_splits list.splits option.splits simp del: hexval.simps)
        with IH [of r'' raw' r] Cons cs show ?thesis by simp
      qed
    qed
  qed
qed


lemma parse_consumes:
  "(\<forall>s v r. parse_value k s = Some (v, r) \<longrightarrow> length r < length s) \<and>
   (\<forall>s vs r. parse_elements k s = Some (vs, r) \<longrightarrow> length r < length s) \<and>
   (\<forall>s ms r. parse_members k s = Some (ms, r) \<longrightarrow> length r < length s)"
proof (induction k)
  case 0
  show ?case by simp
next
  case (Suc k)
  then have IHv: "\<And>s v r. parse_value k s = Some (v, r) \<Longrightarrow> length r < length s"
    and IHe: "\<And>s vs r. parse_elements k s = Some (vs, r) \<Longrightarrow> length r < length s"
    and IHm: "\<And>s ms r. parse_members k s = Some (ms, r) \<Longrightarrow> length r < length s"
    by blast+
  have v: "length r < length s" if p: "parse_value (Suc k) s = Some (v, r)" for s v r
  proof -
    from p obtain c cs where sk: "skip_space s = c # cs" by (cases "skip_space s") auto
    from skip_space_Cons [OF sk] have l: "length cs < length s" .
    consider (obj) "c = CHR ''{''" | (arr) "c \<noteq> CHR ''{''" "c = CHR ''[''"
      | (str) "c \<noteq> CHR ''{''" "c \<noteq> CHR ''[''" "c = CHR 0x22"
      | (oth) "c \<noteq> CHR ''{''" "c \<noteq> CHR ''[''" "c \<noteq> CHR 0x22" by blast
    then show ?thesis
    proof cases
      case obj
      with p sk obtain d ds where sd: "skip_space cs = d # ds" by (cases "skip_space cs") auto
      from skip_space_Cons [OF sd] have l2: "length ds < length cs" .
      show ?thesis
      proof (cases "d = CHR ''}''")
        case True
        with p sk obj sd have "r = ds" by simp
        with l l2 show ?thesis by simp
      next
        case False
        with p sk obj sd obtain ms where "parse_members k (d # ds) = Some (ms, r)"
          by (auto split: option.splits)
        from IHm [OF this] l l2 show ?thesis by simp
      qed
    next
      case arr
      with p sk obtain d ds where sd: "skip_space cs = d # ds" by (cases "skip_space cs") auto
      from skip_space_Cons [OF sd] have l2: "length ds < length cs" .
      show ?thesis
      proof (cases "d = CHR '']''")
        case True
        with p sk arr sd have "r = ds" by simp
        with l l2 show ?thesis by simp
      next
        case False
        with p sk arr sd obtain vs where "parse_elements k (d # ds) = Some (vs, r)"
          by (auto split: option.splits)
        from IHe [OF this] l l2 show ?thesis by simp
      qed
    next
      case str
      with p sk obtain raw where "scan_string cs = Some (raw, r)"
        by (auto split: option.splits)
      from scan_string_length [OF this] l show ?thesis by simp
    next
      case oth
      with p sk have "r = drop 4 (c # cs) \<or> r = drop 5 (c # cs) \<or> (\<exists>n. scan_number (c # cs) = Some (n, r))"
        by (auto split: if_splits option.splits)
      then show ?thesis using l by (auto dest: scan_number_length)
    qed
  qed
  have e: "length r < length s" if p: "parse_elements (Suc k) s = Some (vs, r)" for s vs r
  proof -
    from p obtain v r1 where pv: "parse_value k s = Some (v, r1)"
      by (cases "parse_value k s") auto
    from IHv [OF pv] have l: "length r1 < length s" .
    from p pv obtain c cs where sk: "skip_space r1 = c # cs" by (cases "skip_space r1") auto
    from skip_space_Cons [OF sk] have l2: "length cs < length r1" .
    show ?thesis
    proof (cases "c = CHR '',''")
      case True
      with p pv sk obtain vs' where "parse_elements k cs = Some (vs', r)"
        by (auto split: option.splits)
      from IHe [OF this] l l2 show ?thesis by simp
    next
      case False
      with p pv sk have "r = cs" by (auto split: if_splits)
      with l l2 show ?thesis by simp
    qed
  qed
  have m: "length r < length s" if p: "parse_members (Suc k) s = Some (ms, r)" for s ms r
  proof -
    from p obtain q s1 where sk: "skip_space s = q # s1" by (cases "skip_space s") auto
    from skip_space_Cons [OF sk] have l: "length s1 < length s" .
    from p sk have q: "q = CHR 0x22" by (auto split: if_splits)
    with p sk obtain raw s2 where ss: "scan_string s1 = Some (raw, s2)"
      by (cases "scan_string s1") auto
    from scan_string_length [OF ss] have l2: "length s2 < length s1" .
    from p sk q ss obtain c s3 where sk2: "skip_space s2 = c # s3" by (cases "skip_space s2") auto
    from skip_space_Cons [OF sk2] have l3: "length s3 < length s2" .
    from p sk q ss sk2 have c: "c = CHR '':''" by (auto split: if_splits)
    with p sk q ss sk2 obtain v s4 where pv: "parse_value k s3 = Some (v, s4)"
      by (cases "parse_value k s3") auto
    from IHv [OF pv] have l4: "length s4 < length s3" .
    from p sk q ss sk2 c pv obtain d s5 where sk3: "skip_space s4 = d # s5"
      by (cases "skip_space s4") auto
    from skip_space_Cons [OF sk3] have l5: "length s5 < length s4" .
    show ?thesis
    proof (cases "d = CHR '',''")
      case True
      with p sk q ss sk2 c pv sk3 obtain ms' where "parse_members k s5 = Some (ms', r)"
        by (auto split: option.splits)
      from IHm [OF this] l l2 l3 l4 l5 show ?thesis by simp
    next
      case False
      with p sk q ss sk2 c pv sk3 have "r = s5" by (auto split: if_splits)
      with l l2 l3 l4 l5 show ?thesis by simp
    qed
  qed
  from v e m show ?case by blast
qed


lemma parse_fuel_step:
  "(\<forall>s. 2 * length s < k \<longrightarrow> parse_value (Suc k) s = parse_value k s) \<and>
   (\<forall>s. 2 * length s + 1 < k \<longrightarrow> parse_elements (Suc k) s = parse_elements k s) \<and>
   (\<forall>s. 2 * length s + 1 < k \<longrightarrow> parse_members (Suc k) s = parse_members k s)"
proof (induction k)
  case 0
  show ?case by simp
next
  case (Suc k)
  then have IHv: "\<And>s. 2 * length s < k \<Longrightarrow> parse_value (Suc k) s = parse_value k s"
    and IHe: "\<And>s. 2 * length s + 1 < k \<Longrightarrow> parse_elements (Suc k) s = parse_elements k s"
    and IHm: "\<And>s. 2 * length s + 1 < k \<Longrightarrow> parse_members (Suc k) s = parse_members k s"
    by blast+
  note consumes = parse_consumes [of k, THEN conjunct1, rule_format]
  have v: "parse_value (Suc (Suc k)) s = parse_value (Suc k) s" if b: "2 * length s < Suc k" for s
  proof (cases "skip_space s")
    case Nil
    then show ?thesis by simp
  next
    case s0: (Cons c cs)
    from skip_space_Cons [OF s0] have l: "length cs < length s" .
    show ?thesis
    proof (cases "skip_space cs")
      case Nil
      with s0 show ?thesis by simp
    next
      case s1: (Cons d ds)
      from skip_space_length [of cs] s1 have "length (d # ds) \<le> length cs" by simp
      with l b have "2 * length (d # ds) + 1 < k" by simp
      then have eq: "parse_members (Suc k) (d # ds) = parse_members k (d # ds)"
        "parse_elements (Suc k) (d # ds) = parse_elements k (d # ds)"
        by (rule IHm, rule IHe)
      show ?thesis
        by (simp only: parse_value.simps(2) [of "Suc k" s] parse_value.simps(2) [of k s]
            s0 s1 eq list.case)
    qed
  qed
  have e: "parse_elements (Suc (Suc k)) s = parse_elements (Suc k) s"
    if b: "2 * length s + 1 < Suc k" for s
  proof -
    from b have "2 * length s < k" by simp
    then have pv: "parse_value (Suc k) s = parse_value k s" by (rule IHv)
    note unf = parse_elements.simps(2) [of "Suc k" s] parse_elements.simps(2) [of k s]
    show ?thesis
    proof (cases "parse_value k s")
      case None
      show ?thesis by (simp only: unf pv None option.case)
    next
      case (Some a)
      obtain v r where a: "a = (v, r)" by (cases a)
      from consumes [of s v r] Some a have l: "length r < length s" by simp
      show ?thesis
      proof (cases "skip_space r")
        case Nil
        show ?thesis by (simp only: unf pv Some a Nil option.case prod.case list.case)
      next
        case (Cons c cs)
        from skip_space_Cons [OF Cons] l b have "2 * length cs + 1 < k" by simp
        then have eq: "parse_elements (Suc k) cs = parse_elements k cs" by (rule IHe)
        show ?thesis by (simp only: unf pv Some a Cons eq option.case prod.case list.case)
      qed
    qed
  qed
  have m: "parse_members (Suc (Suc k)) s = parse_members (Suc k) s"
    if b: "2 * length s + 1 < Suc k" for s
  proof -
    note unf = parse_members.simps(2) [of "Suc k" s] parse_members.simps(2) [of k s]
    show ?thesis
    proof (cases "skip_space s")
      case Nil
      show ?thesis by (simp only: unf Nil list.case)
    next
      case s0: (Cons q s1)
      from skip_space_Cons [OF s0] have l1: "length s1 < length s" .
      show ?thesis
      proof (cases "scan_string s1")
        case None
        show ?thesis by (simp only: unf s0 None list.case option.case)
      next
        case (Some a)
        obtain raw s2 where a: "a = (raw, s2)" by (cases a)
        from scan_string_length [of s1 raw s2] Some a have l2: "length s2 < length s1" by simp
        show ?thesis
        proof (cases "skip_space s2")
          case Nil
          show ?thesis by (simp only: unf s0 Some a Nil list.case option.case prod.case)
        next
          case s3: (Cons c s3)
          from skip_space_Cons [OF s3] have l3: "length s3 < length s2" .
          from l1 l2 l3 b have "2 * length s3 < k" by simp
          then have pv: "parse_value (Suc k) s3 = parse_value k s3" by (rule IHv)
          show ?thesis
          proof (cases "parse_value k s3")
            case None
            show ?thesis by (simp only: unf s0 Some a s3 pv None list.case option.case prod.case)
          next
            case v: (Some a')
            obtain v s4 where a': "a' = (v, s4)" by (cases a')
            from consumes [of s3 v s4] v a' have l4: "length s4 < length s3" by simp
            show ?thesis
            proof (cases "skip_space s4")
              case Nil
              show ?thesis
                by (simp only: unf s0 Some a s3 pv v a' Nil list.case option.case prod.case)
            next
              case s5: (Cons d s5)
              from skip_space_Cons [OF s5] l1 l2 l3 l4 b have "2 * length s5 + 1 < k" by simp
              then have eq: "parse_members (Suc k) s5 = parse_members k s5" by (rule IHm)
              show ?thesis
                by (simp only: unf s0 Some a s3 pv v a' s5 eq list.case option.case prod.case)
            qed
          qed
        qed
      qed
    qed
  qed
  from v e m show ?case by blast
qed

lemma parse_value_fuel:
  "2 * length s < k \<Longrightarrow> parse_value k s = parse_value (Suc (2 * length s)) s"
proof (induction k)
  case 0
  then show ?case by simp
next
  case (Suc k)
  show ?case
  proof (cases "2 * length s < k")
    case True
    with Suc.IH parse_fuel_step [of k] show ?thesis by simp
  next
    case False
    with Suc.prems have "k = 2 * length s" by simp
    then show ?thesis by simp
  qed
qed

lemma json_parse_fuel:
  "2 * length s < k \<Longrightarrow>
     json_parse s =
       (case parse_value k s of
          None \<Rightarrow> None
        | Some (v, r) \<Rightarrow> if skip_space r = [] then Some v else None)"
  by (simp add: json_parse_def parse_value_fuel)

lemma scripted_runtime_fields [simp]:
  "client_Do (scripted_runtime f) req s = (f req, s)"
  "url_error (scripted_runtime f) u = None"
  "fmt_Errorf (scripted_runtime f) m = m"
  "json_error_text (scripted_runtime f) e = ''json error''"
  "json_Marshal_Script (scripted_runtime f) sc =
     (case Name sc of None \<Rightarrow> [] | Some x \<Rightarrow> x) @ '':'' @
     (case Content sc of None \<Rightarrow> [] | Some x \<Rightarrow> x)"
  "json_Marshal_args (scripted_runtime f) a = Inr ''{}''"
  "uuid_New (scripted_runtime f) s = (''0b5a3c1e-7d2f-4e8a-9c6b-1f2e3d4c5b6a'', s)"
  by (simp_all add: scripted_runtime_def)

section \<open>Facts about the decoder and the transport\<close>

lemma unmarshal_boom:
  \<open>json_Unmarshal_Response ''{"name":"x","result":"boom"}'' =
     (Some \<lparr>ResponseName = Some ''x'', Result = Some ''boom''\<rparr>, None)\<close>
  by code_simp

lemma unmarshal_empty_object:
  \<open>json_Unmarshal_Response ''{}'' = (Some \<lparr>ResponseName = None, Result = None\<rparr>, None)\<close>
  by code_simp

lemma unmarshal_null: \<open>json_Unmarshal_Response ''null'' = (None, None)\<close>
  by code_simp

lemma unmarshal_not_json: \<open>json_Unmarshal_Response ''oops'' = (None, Some SyntaxError)\<close>
  by code_simp

lemma Do_sent: "sent (snd (Do rt req sm b w)) = sent w @ [req]"
  by (simp add: Do_def Let_def split: prod.splits http_result.splits option.splits)

lemma Do_body_as_error:
  assumes "client_Do rt req (ext w) = (Response resp, s')" and "300 \<le> StatusCode resp"
  shows "Do rt req sm True w = (Inl (ErrorString (RespBody resp)), \<lparr>ext = s', sent = sent w @ [req]\<rparr>)"
  using assms by (simp add: Do_def)

lemma ExecuteScript_failed:
  assumes "marshalScriptArgs rt args = Inr payload"
    and "url_error rt (URL (run_request n name payload)) = None"
    and "Do rt (run_request n name payload) None True w = (Inl e, w1)"
  shows "ExecuteScript rt n name args w =
     (case json_Unmarshal_Response (Error rt e) of
        (res, Some je) \<Rightarrow> (Return (res, Some (JsonError je)), w1)
      | (None, None) \<Rightarrow> (Panic, w1)
      | (Some r, None) \<Rightarrow>
          (case Result r of
             None \<Rightarrow> (Panic, w1)
           | Some m \<Rightarrow> (Return (Some r, Some (ErrorString m)), w1)))"
  using assms by (simp add: ExecuteScript_def NewRequest_def run_request_def script_request_def)


lemma issued_append: "sent w' = sent w @ rs \<Longrightarrow> issued w w' = rs"
  by (simp add: issued_def)

lemma Do_sentD: "Do rt req sm b w = (r, w1) \<Longrightarrow> sent w1 = sent w @ [req]"
  using Do_sent [of rt req sm b w] by simp

lemma Script_eta: "\<lparr>Name = Name s, Content = Content s, Type = Type s\<rparr> = (s :: Script)"
  by simp

lemma GetScript_sent:
  "GetScript rt n name w = (r, w1) \<Longrightarrow>
     sent w1 = sent w @ (if url_error rt (URL (get_request n name)) = None then [get_request n name] else [])"
  by (auto simp: GetScript_def NewRequest_def Let_def get_request_def script_request_def
      split: option.splits sum.splits prod.splits dest: Do_sentD)

lemma GetScript_ok_url:
  "GetScript rt n name w = (Return (r, None), w1) \<Longrightarrow> url_error rt (URL (get_request n name)) = None"
  by (auto simp: GetScript_def NewRequest_def Let_def get_request_def script_request_def
      split: option.splits sum.splits prod.splits)

lemma GetScript_not_nil:
  "GetScript rt n name w \<noteq> (Return (None, None), w1)"
  by (auto simp: GetScript_def NewRequest_def Let_def split: option.splits sum.splits prod.splits)

lemma CreateScript_sent:
  "CreateScript rt n script w = (r, w1) \<Longrightarrow>
     sent w1 = sent w @
       (if Name script \<noteq> None \<and> Content script \<noteq> None \<and> url_error rt (URL (create_request rt n script)) = None
        then [create_request rt n script] else [])"
  by (auto simp: CreateScript_def NewRequest_def Let_def create_request_def script_request_def
      split: option.splits sum.splits prod.splits dest: Do_sentD)

lemma CreateScript_result:
  "CreateScript rt n script w = (r, w1) \<Longrightarrow>
     (\<exists>e. r = Return (None, Some e)) \<or>
     (r = Return (Some script, None) \<and> Name script \<noteq> None \<and> Content script \<noteq> None)"
  by (auto simp: CreateScript_def split: option.splits sum.splits prod.splits)

lemma UpdateScript_sent:
  "UpdateScript rt n script w = (r, w1) \<Longrightarrow> Name script = Some name \<Longrightarrow>
     sent w1 = sent w @
       (if Content script \<noteq> None \<and> url_error rt (URL (update_request rt n name script)) = None
        then [update_request rt n name script] else [])"
  by (auto simp: UpdateScript_def NewRequest_def Let_def update_request_def script_request_def
      split: option.splits sum.splits prod.splits dest: Do_sentD)

lemma UpdateScript_result:
  "UpdateScript rt n script w = (r, w1) \<Longrightarrow>
     (\<exists>e. r = Return (None, Some e)) \<or>
     (r = Return (Some script, None) \<and> Name script \<noteq> None \<and> Content script \<noteq> None)"
  by (auto simp: UpdateScript_def split: option.splits sum.splits prod.splits)

lemma ExecuteScript_sent:
  "ExecuteScript rt n name args w = (r, w1) \<Longrightarrow>
     sent w1 = sent w @
       (case marshalScriptArgs rt args of
          Inl e \<Rightarrow> []
        | Inr payload \<Rightarrow>
            if url_error rt (URL (run_request n name payload)) = None
            then [run_request n name payload] else [])"
  by (auto simp: ExecuteScript_def NewRequest_def Let_def run_request_def script_request_def
      split: option.splits sum.splits prod.splits dest: Do_sentD)

lemma Script_Execute_sent:
  "Script_Execute rt n s args w = (r, w1) \<Longrightarrow>
     sent w1 = sent w @
       (case (Name s, marshalScriptArgs rt args) of
          (Some name, Inr payload) \<Rightarrow>
            if url_error rt (URL (run_request n name payload)) = None
            then [run_request n name payload] else []
        | _ \<Rightarrow> [])"
  by (auto simp: Script_Execute_def split: option.splits sum.splits dest: ExecuteScript_sent)

lemma DeleteScript_sent:
  "DeleteScript rt n name w = (r, w1) \<Longrightarrow>
     sent w1 = sent w @
       (if url_error rt (URL (delete_request n name)) = None then [delete_request n name] else [])"
  by (auto simp: DeleteScript_def NewRequest_def Let_def delete_request_def script_request_def
      split: option.splits sum.splits prod.splits dest: Do_sentD)

lemma DeleteScript_returns: "\<exists>d. fst (DeleteScript rt n name w) = Return d"
  by (auto simp: DeleteScript_def split: option.splits sum.splits prod.splits)

lemma call_of_requests [simp]:
  "call_of (get_request n name) = Get"
  "call_of (create_request rt n s) = Create"
  "call_of (update_request rt n name s) = Update"
  "call_of (run_request n name p) = Execute"
  "call_of (delete_request n name) = Delete"
  by (simp_all add: call_of_def get_request_def create_request_def update_request_def
      run_request_def delete_request_def script_request_def)

lemma same_script_url: "URL (update_request rt n name s) = URL (get_request n name)"
  by (simp add: update_request_def get_request_def script_request_def)

lemma eae_nil_name: "Name s = None \<Longrightarrow> ensureAndExecute rt n s args w = (Panic, w)"
  by (simp add: ensureAndExecute_def)

lemma eae_get_panic:
  "Name s = Some name \<Longrightarrow> GetScript rt n name w = (Panic, w1) \<Longrightarrow>
   ensureAndExecute rt n s args w = (Panic, w1)"
  by (simp add: ensureAndExecute_def)

lemma eae_create_failed:
  assumes "Name s = Some name"
    and "GetScript rt n name w = (Return (g, Some e), w1)"
    and "CreateScript rt n s w1 = (Return (c, Some e'), w2)"
  shows "ensureAndExecute rt n s args w = (Return (None, Some e'), w2)"
  unfolding ensureAndExecute_def Script_eta using assms by (simp split: option.splits)

lemma eae_created:
  assumes "Name s = Some name"
    and "GetScript rt n name w = (Return (g, Some e), w1)"
    and "CreateScript rt n s w1 = (Return (Some c, None), w2)"
  shows "ensureAndExecute rt n s args w = Script_Execute rt n s args w2"
proof -
  from CreateScript_result [OF assms(3)] have "c = s" and "Content s \<noteq> None" by auto
  then show ?thesis unfolding ensureAndExecute_def Script_eta using assms by auto
qed

lemma eae_nil_content:
  assumes "Name s = Some name"
    and "GetScript rt n name w = (Return (Some r, None), w1)"
    and "Content r = None \<or> Content s = None"
  shows "ensureAndExecute rt n s args w = (Panic, w1)"
  using assms by (auto simp: ensureAndExecute_def split: option.splits)

lemma eae_unchanged:
  assumes "Name s = Some name"
    and "GetScript rt n name w = (Return (Some r, None), w1)"
    and "Content r = Some b" and "Content s = Some b"
  shows "ensureAndExecute rt n s args w = Script_Execute rt n r args w1"
  using assms by (simp add: ensureAndExecute_def)

lemma eae_update_failed:
  assumes "Name s = Some name"
    and "GetScript rt n name w = (Return (Some r, None), w1)"
    and "Content r = Some rb" and "Content s = Some b" and "rb \<noteq> b"
    and "UpdateScript rt n s w1 = (Return (u, Some e), w2)"
  shows "ensureAndExecute rt n s args w = (Return (None, Some e), w2)"
  unfolding ensureAndExecute_def Script_eta using assms by (simp split: option.splits)

lemma eae_updated:
  assumes "Name s = Some name"
    and "GetScript rt n name w = (Return (Some r, None), w1)"
    and "Content r = Some rb" and "Content s = Some b" and "rb \<noteq> b"
    and "UpdateScript rt n s w1 = (Return (Some u, None), w2)"
  shows "ensureAndExecute rt n s args w = Script_Execute rt n s args w2"
proof -
  from UpdateScript_result [OF assms(6)] have "u = s" by auto
  then show ?thesis unfolding ensureAndExecute_def Script_eta using assms by simp
qed

lemma Script_Execute_shape:
  "Script_Execute rt n s args w = (r, w1) \<Longrightarrow>
     \<exists>x. sent w1 = sent w @ x \<and> (x = [] \<or> (\<exists>nm p. x = [run_request n nm p]))"
  by (drule Script_Execute_sent) (auto split: option.splits sum.splits)

text \<open>The requests of one call of the bridge, after the ones of its get step.\<close>

lemma eae_after_get:
  assumes nm: "Name s = Some name" and g: "GetScript rt n name w = (g0, w1)"
  shows "\<exists>c x. sent (snd (ensureAndExecute rt n s args w)) = sent w1 @ c @ x \<and>
           (if \<exists>r e. g0 = Return (r, Some e)
            then c = (if Content s \<noteq> None \<and> url_error rt (URL (create_request rt n s)) = None
                      then [create_request rt n s] else [])
            else c = [] \<or> c = [update_request rt n name s]) \<and>
           (x = [] \<or> (\<exists>nm p. x = [run_request n nm p]))"
proof -
  let ?P = "\<lambda>c. if \<exists>r e. g0 = Return (r, Some e)
            then c = (if Content s \<noteq> None \<and> url_error rt (URL (create_request rt n s)) = None
                      then [create_request rt n s] else [])
            else c = [] \<or> c = [update_request rt n name s]"
  let ?Q = "\<lambda>x. x = [] \<or> (\<exists>nm p. x = [run_request n nm p])"
  have fin: "?thesis"
    if "sent (snd (ensureAndExecute rt n s args w)) = sent w1 @ c @ x" "?P c" "?Q x" for c x
    using that by blast
  have run: "\<exists>x. sent (snd (Script_Execute rt n sc args w2)) = sent w2 @ x \<and> ?Q x" for sc w2
    using Script_Execute_shape [of rt n sc args w2] by (cases "Script_Execute rt n sc args w2") auto
  show ?thesis
  proof (cases g0)
    case Panic
    with nm g have "ensureAndExecute rt n s args w = (Panic, w1)" by (simp add: eae_get_panic)
    then show ?thesis using Panic by (intro fin [of "[]" "[]"]) auto
  next
    case (Return p)
    obtain r eo where p: "p = (r, eo)" by (cases p)
    show ?thesis
    proof (cases eo)
      case (Some e)
      with Return p g have gf: "GetScript rt n name w = (Return (r, Some e), w1)" by simp
      have yes: "\<exists>r e. g0 = Return (r, Some e)" using Return p Some by simp
      obtain c0 w2 where cr: "CreateScript rt n s w1 = (c0, w2)" by (cases "CreateScript rt n s w1")
      let ?c = "if Content s \<noteq> None \<and> url_error rt (URL (create_request rt n s)) = None
                then [create_request rt n s] else []"
      from CreateScript_sent [OF cr] nm have s2: "sent w2 = sent w1 @ ?c" by simp
      from CreateScript_result [OF cr] show ?thesis
      proof
        assume "\<exists>e'. c0 = Return (None, Some e')"
        then obtain e' where "c0 = Return (None, Some e')" ..
        with cr have "ensureAndExecute rt n s args w = (Return (None, Some e'), w2)"
          using eae_create_failed [OF nm gf] by simp
        with s2 yes show ?thesis by (intro fin [of ?c "[]"]) auto
      next
        assume "c0 = Return (Some s, None) \<and> Name s \<noteq> None \<and> Content s \<noteq> None"
        with cr have e: "ensureAndExecute rt n s args w = Script_Execute rt n s args w2"
          using eae_created [OF nm gf] by simp
        from run [of s w2] obtain xs where
          "sent (snd (Script_Execute rt n s args w2)) = sent w2 @ xs" "?Q xs" by blast
        with e s2 yes show ?thesis by (intro fin [of ?c xs]) auto
      qed
    next
      case None
      show ?thesis
      proof (cases r)
        case None
        with \<open>eo = None\<close> Return p g show ?thesis using GetScript_not_nil [of rt n name w w1] by simp
      next
        case (Some remote)
        with \<open>eo = None\<close> Return p g have gs: "GetScript rt n name w = (Return (Some remote, None), w1)"
          by simp
        have ne: "\<not> (\<exists>r e. g0 = Return (r, Some e))" using Return p \<open>eo = None\<close> by simp
        show ?thesis
        proof (cases "Content remote = None \<or> Content s = None")
          case True
          from eae_nil_content [OF nm gs True] ne show ?thesis by (intro fin [of "[]" "[]"]) auto
        next
          case False
          then obtain rb b where rb: "Content remote = Some rb" and b: "Content s = Some b" by auto
          show ?thesis
          proof (cases "rb = b")
            case True
            with eae_unchanged [OF nm gs rb] b
            have e: "ensureAndExecute rt n s args w = Script_Execute rt n remote args w1" by simp
            from run [of remote w1] obtain xs where
              "sent (snd (Script_Execute rt n remote args w1)) = sent w1 @ xs" "?Q xs" by blast
            with e ne show ?thesis by (intro fin [of "[]" xs]) auto
          next
            case False
            obtain u0 w2 where up: "UpdateScript rt n s w1 = (u0, w2)"
              by (cases "UpdateScript rt n s w1")
            from UpdateScript_sent [OF up nm] b
            have s2: "sent w2 = sent w1 @ [update_request rt n name s]"
              using GetScript_ok_url [OF gs] by (simp add: same_script_url)
            from UpdateScript_result [OF up] show ?thesis
            proof
              assume "\<exists>e'. u0 = Return (None, Some e')"
              then obtain e' where "u0 = Return (None, Some e')" ..
              with up have "ensureAndExecute rt n s args w = (Return (None, Some e'), w2)"
                using eae_update_failed [OF nm gs rb b False] by simp
              with s2 ne show ?thesis by (intro fin [of "[update_request rt n name s]" "[]"]) auto
            next
              assume "u0 = Return (Some s, None) \<and> Name s \<noteq> None \<and> Content s \<noteq> None"
              with up have e: "ensureAndExecute rt n s args w = Script_Execute rt n s args w2"
                using eae_updated [OF nm gs rb b False] by simp
              from run [of s w2] obtain xs where
                "sent (snd (Script_Execute rt n s args w2)) = sent w2 @ xs" "?Q xs" by blast
              with e s2 ne show ?thesis by (intro fin [of "[update_request rt n name s]" xs]) auto
            qed
          qed
        qed
      qed
    qed
  qed
qed

lemma create_request_distinct:
  "create_request rt n s \<noteq> get_request n' name"
  "create_request rt n s \<noteq> update_request rt' n' name s'"
  "create_request rt n s \<noteq> run_request n' name p"
  by (auto dest: arg_cong [where f = call_of])

lemma unmarshal_result_1:
  \<open>json_Unmarshal_Response ''{"name":"p1","result":"1"}'' =
     (Some \<lparr>ResponseName = Some ''p1'', Result = Some ''1''\<rparr>, None)\<close>
  by code_simp

lemma unmarshal_p1_same:
  \<open>json_Unmarshal_Script ''{"name":"p1","content":"return 1","type":"groovy"}'' =
     (Some \<lparr>Name = Some ''p1'', Content = Some ''return 1'', Type = Some ''groovy''\<rparr>, None)\<close>
  by code_simp

lemma unmarshal_p1_other:
  \<open>json_Unmarshal_Script ''{"name":"p1","content":"return 2","type":"groovy"}'' =
     (Some \<lparr>Name = Some ''p1'', Content = Some ''return 2'', Type = Some ''groovy''\<rparr>, None)\<close>
  by code_simp

lemmas run_defs =
  GetScript_def CreateScript_def UpdateScript_def DeleteScript_def ExecuteScript_def
  Script_Execute_def Script_Delete_def marshalScriptArgs_def NewRequest_def Do_def Let_def
  status_with_def localhost_def world0_def

lemma get_unreachable_GetScript:
  "GetScript (scripted_runtime get_unreachable) localhost ''p1'' world0 =
     (Return (None, Some (ErrorString ''connection refused'')),
      \<lparr>ext = (), sent = [get_request localhost ''p1'']\<rparr>)"
  by (simp add: run_defs get_unreachable_def get_request_def script_request_def)

lemma holding_GetScript_other:
  \<open>GetScript (scripted_runtime (holding ''{"name":"p1","content":"return 2","type":"groovy"}''))
      localhost ''p1'' world0 =
     (Return (Some \<lparr>Name = Some ''p1'', Content = Some ''return 2'', Type = Some ''groovy''\<rparr>, None),
      \<lparr>ext = (), sent = [get_request localhost ''p1'']\<rparr>)\<close>
  by (simp add: run_defs holding_def unmarshal_p1_other get_request_def script_request_def)

lemma holding_GetScript_same:
  \<open>GetScript (scripted_runtime (holding ''{"name":"p1","content":"return 1","type":"groovy"}''))
      localhost ''p1'' world0 =
     (Return (Some \<lparr>Name = Some ''p1'', Content = Some ''return 1'', Type = Some ''groovy''\<rparr>, None),
      \<lparr>ext = (), sent = [get_request localhost ''p1'']\<rparr>)\<close>
  by (simp add: run_defs holding_def unmarshal_p1_same get_request_def script_request_def)

lemma bridge_issued:
  "\<exists>g c x. issued w (snd (ensureAndExecute rt n s args w)) = g @ c @ x \<and>
     (g = [] \<or> (\<exists>name. g = [get_request n name])) \<and>
     (c = [] \<or> c = [create_request rt n s] \<or> (\<exists>name. c = [update_request rt n name s])) \<and>
     (x = [] \<or> (\<exists>nm p. x = [run_request n nm p]))"
proof (cases "Name s")
  case None
  then show ?thesis by (simp add: eae_nil_name issued_def)
next
  case (Some name)
  obtain g0 w1 where g: "GetScript rt n name w = (g0, w1)" by (cases "GetScript rt n name w")
  let ?G = "if url_error rt (URL (get_request n name)) = None then [get_request n name] else []"
  from GetScript_sent [OF g] have s1: "sent w1 = sent w @ ?G" .
  from eae_after_get [OF Some g, of args] obtain c x where
    fin: "sent (snd (ensureAndExecute rt n s args w)) = sent w1 @ c @ x"
    and c: "if \<exists>r e. g0 = Return (r, Some e)
            then c = (if Content s \<noteq> None \<and> url_error rt (URL (create_request rt n s)) = None
                      then [create_request rt n s] else [])
            else c = [] \<or> c = [update_request rt n name s]"
    and x: "x = [] \<or> (\<exists>nm p. x = [run_request n nm p])" by blast
  from fin s1 have i: "issued w (snd (ensureAndExecute rt n s args w)) = ?G @ c @ x"
    by (simp add: issued_def)
  from c have c': "c = [] \<or> c = [create_request rt n s] \<or> (\<exists>name. c = [update_request rt n name s])"
    by (auto split: if_splits)
  show ?thesis
    by (rule exI [of _ ?G], rule exI [of _ c], rule exI [of _ x]) (use i c' x in auto)
qed

lemma ephemeral_create_failed:
  assumes "uuid_New rt (ext w) = (u, s0)"
    and "CreateScript rt n \<lparr>Name = Some u, Content = Content s, Type = ScriptTypeGroovy\<rparr>
           (w\<lparr>ext := s0\<rparr>) = (Return (c, Some e), w1)"
  shows "EphemeralScript_Execute rt n s args w = (Return (None, Some e), w1)"
  using assms by (simp add: EphemeralScript_Execute_def split: option.splits)

lemma ephemeral_created:
  assumes "uuid_New rt (ext w) = (u, s0)"
    and "CreateScript rt n \<lparr>Name = Some u, Content = Content s, Type = ScriptTypeGroovy\<rparr>
           (w\<lparr>ext := s0\<rparr>) = (Return (Some c, None), w1)"
    and "Script_Execute rt n c args w1 = (r, w2)"
    and "DeleteScript rt n u w2 = (Return d, w3)"
  shows "Name c = Some u \<and> EphemeralScript_Execute rt n s args w = (r, w3)"
proof -
  from CreateScript_result [OF assms(2)]
  have c: "c = \<lparr>Name = Some u, Content = Content s, Type = ScriptTypeGroovy\<rparr>" by auto
  then have "Script_Delete rt n c w2 = (Return d, w3)"
    using assms(4) by (simp add: Script_Delete_def)
  then show ?thesis using assms c by (simp add: EphemeralScript_Execute_def)
qed

lemma ephemeral_issued:
  "\<exists>c x d. issued w (snd (EphemeralScript_Execute rt n s args w)) = c @ x @ d \<and>
     (c = [] \<or> (\<exists>sc. c = [create_request rt n sc])) \<and>
     (x = [] \<or> (\<exists>nm p. x = [run_request n nm p])) \<and>
     (d = [] \<or> (\<exists>nm. d = [delete_request n nm]))"
proof -
  obtain u s0 where uu: "uuid_New rt (ext w) = (u, s0)" by (cases "uuid_New rt (ext w)")
  let ?sc = "\<lparr>Name = Some u, Content = Content s, Type = ScriptTypeGroovy\<rparr>"
  obtain c0 w1 where cr: "CreateScript rt n ?sc (w\<lparr>ext := s0\<rparr>) = (c0, w1)"
    by (cases "CreateScript rt n ?sc (w\<lparr>ext := s0\<rparr>)")
  let ?C = "if Name ?sc \<noteq> None \<and> Content ?sc \<noteq> None \<and> url_error rt (URL (create_request rt n ?sc)) = None
            then [create_request rt n ?sc] else []"
  from CreateScript_sent [OF cr] have s1: "sent w1 = sent w @ ?C" by simp
  have C: "?C = [] \<or> (\<exists>sc. ?C = [create_request rt n sc])" by auto
  from CreateScript_result [OF cr] show ?thesis
  proof
    assume "\<exists>e. c0 = Return (None, Some e)"
    then obtain e where "c0 = Return (None, Some e)" ..
    with cr have "EphemeralScript_Execute rt n s args w = (Return (None, Some e), w1)"
      using ephemeral_create_failed [OF uu] by simp
    with s1 have "issued w (snd (EphemeralScript_Execute rt n s args w)) = ?C @ [] @ []"
      by (simp add: issued_def)
    with C show ?thesis by blast
  next
    assume "c0 = Return (Some ?sc, None) \<and> Name ?sc \<noteq> None \<and> Content ?sc \<noteq> None"
    with cr have cr': "CreateScript rt n ?sc (w\<lparr>ext := s0\<rparr>) = (Return (Some ?sc, None), w1)" by simp
    obtain r w2 where x: "Script_Execute rt n ?sc args w1 = (r, w2)"
      by (cases "Script_Execute rt n ?sc args w1")
    from Script_Execute_shape [OF x] obtain xs where
      s2: "sent w2 = sent w1 @ xs" and X: "xs = [] \<or> (\<exists>nm p. xs = [run_request n nm p])" by blast
    obtain d0 w3 where dl: "DeleteScript rt n u w2 = (d0, w3)" by (cases "DeleteScript rt n u w2")
    from DeleteScript_returns [of rt n u w2] dl obtain d where d0: "d0 = Return d" by auto
    let ?D = "if url_error rt (URL (delete_request n u)) = None then [delete_request n u] else []"
    from DeleteScript_sent [OF dl] have s3: "sent w3 = sent w2 @ ?D" .
    have D: "?D = [] \<or> (\<exists>nm. ?D = [delete_request n nm])" by auto
    from ephemeral_created [OF uu cr' x] dl d0
    have "EphemeralScript_Execute rt n s args w = (r, w3)" by simp
    with s1 s2 s3 have "issued w (snd (EphemeralScript_Execute rt n s args w)) = ?C @ xs @ ?D"
      by (simp add: issued_def)
    with C X D show ?thesis by blast
  qed
qed

lemma scripted_uuid: "uuid_New (scripted_runtime f) s = (generated_name, s)"
  by (simp add: generated_name_def)

lemma sent_world0: "sent world0 = []"
  by (simp add: world0_def)

lemma get_unreachable_ensureAndExecute:
  "ensureAndExecute (scripted_runtime get_unreachable) localhost p1 None world0 =
     (Return (Some \<lparr>ResponseName = Some ''p1'', Result = Some ''1''\<rparr>, None),
      \<lparr>ext = (),
       sent = [get_request localhost ''p1'',
               create_request (scripted_runtime get_unreachable) localhost p1,
               run_request localhost ''p1'' None]\<rparr>)"
  by (simp add: ensureAndExecute_def p1_def run_defs get_unreachable_def unmarshal_result_1
      get_request_def create_request_def run_request_def script_request_def)

lemma store_string_error:
  "store_string cur v = (x, Some e) \<Longrightarrow> e = UnmarshalTypeError"
  by (auto simp: store_string_def split: json.splits)

lemma store_Response_error:
  "store_Response (r, e) kv = (r', e') \<Longrightarrow> e \<noteq> Some SyntaxError \<Longrightarrow> e' \<noteq> Some SyntaxError"
  by (cases kv)
    (auto simp: first_error_def split: if_splits prod.splits option.splits dest: store_string_error)

lemma foldl_store_Response_error:
  "foldl store_Response (r, e) ms = (r', e') \<Longrightarrow> e \<noteq> Some SyntaxError \<Longrightarrow> e' \<noteq> Some SyntaxError"
proof (induction ms arbitrary: r e)
  case Nil
  then show ?case by simp
next
  case (Cons kv ms)
  obtain r1 e1 where s: "store_Response (r, e) kv = (r1, e1)" by (cases "store_Response (r, e) kv")
  from store_Response_error [OF s Cons.prems(2)] have "e1 \<noteq> Some SyntaxError" .
  with Cons.IH [of r1 e1] Cons.prems(1) s show ?case by simp
qed

lemma unmarshal_syntax_error_nil:
  "json_Unmarshal_Response doc = (r, Some SyntaxError) \<Longrightarrow> r = None"
  by (auto simp: json_Unmarshal_Response_def split: option.splits json.splits prod.splits
      dest: foldl_store_Response_error)

lemma raising_ExecuteScript:
  "ExecuteScript (scripted_runtime raising) localhost ''p1'' None world0 =
     (Return (Some \<lparr>ResponseName = Some ''x'', Result = Some ''boom''\<rparr>, Some (ErrorString ''boom'')),
      \<lparr>ext = (), sent = [run_request localhost ''p1'' None]\<rparr>)"
  by (simp add: run_defs raising_def unmarshal_boom run_request_def script_request_def)

lemma last_flags_Suc: "k \<noteq> 0 \<Longrightarrow> last_flags (Suc k) = False # last_flags k"
  by (cases k) (simp_all add: last_flags_def)

lemma ListPages_served:
  "served fetch cb input w ps \<Longrightarrow>
     \<exists>w'. ListPages fetch input cb (w, h) = Some (Return None, w', h @ zip ps (last_flags (length ps)))"
proof (induction ps arbitrary: input w h)
  case Nil
  then show ?case by simp
next
  case (Cons p ps)
  from Cons.prems obtain w1 where f: "fetch input w = (Return (Some p, None), w1)"
    by (auto split: prod.splits outcome.splits option.splits)
  with Cons.prems have t: "fst (cb p True (ext w1)) = (True, None)"
    and fl: "fst (cb p False (ext w1)) = (True, None)"
    and nx: "case NextToken p of
               None \<Rightarrow> ps = []
             | Some token \<Rightarrow>
                 ps \<noteq> [] \<and>
                 served fetch cb \<lparr>Repository = Repository input, ContinuationToken = Some token\<rparr>
                   (w1\<lparr>ext := snd (cb p False (ext w1))\<rparr>) ps"
    by simp_all
  show ?case
  proof (cases "NextToken p")
    case None
    with nx have "ps = []" by simp
    moreover obtain s2 where "cb p True (ext w1) = ((True, None), s2)"
      using t by (cases "cb p True (ext w1)") auto
    ultimately show ?thesis
      using f None by (subst ListPages.simps) (simp add: last_flags_def)
  next
    case (Some token)
    with nx have ne: "ps \<noteq> []"
      and sv: "served fetch cb \<lparr>Repository = Repository input, ContinuationToken = Some token\<rparr>
                 (w1\<lparr>ext := snd (cb p False (ext w1))\<rparr>) ps" by simp_all
    obtain s2 where c: "cb p False (ext w1) = ((True, None), s2)"
      using fl by (cases "cb p False (ext w1)") auto
    from Cons.IH [OF sv, of "h @ [(p, False)]"] obtain w' where
      "ListPages fetch \<lparr>Repository = Repository input, ContinuationToken = Some token\<rparr> cb
         (w1\<lparr>ext := snd (cb p False (ext w1))\<rparr>, h @ [(p, False)]) =
       Some (Return None, w', (h @ [(p, False)]) @ zip ps (last_flags (length ps)))" ..
    then show ?thesis
      using f Some c ne by (subst ListPages.simps) (simp add: last_flags_Suc)
  qed
qed

lemma ListPages_every_page:
  assumes "served fetch cb input w ps"
  shows "\<exists>w' calls. ListPages fetch input cb (w, []) = Some (Return None, w', calls) \<and>
         length calls = length ps \<and> map fst calls = ps \<and>
         map snd calls = replicate (length ps - 1) False @ [True] \<and>
         concat (map (Items \<circ> fst) calls) = concat (map Items ps)"
proof -
  from ListPages_served [OF assms, of "[]"] obtain w' where
    r: "ListPages fetch input cb (w, []) = Some (Return None, w', zip ps (last_flags (length ps)))"
    by auto
  have l: "length (last_flags (length ps)) = length ps"
    using assms by (cases ps) (simp_all add: last_flags_def)
  then have "map fst (zip ps (last_flags (length ps))) = ps"
    and "map snd (zip ps (last_flags (length ps))) = last_flags (length ps)"
    by simp_all
  with r l show ?thesis
    by (intro exI [of _ w'] exI [of _ "zip ps (last_flags (length ps))"])
       (simp add: last_flags_def flip: map_map)
qed

lemma ListAssets_sent:
  "ListAssets rt n input w = (Return (Some res, None), w1) \<Longrightarrow> length (issued w w1) = 1"
  by (auto simp: ListAssets_def issued_def split: option.splits sum.splits prod.splits if_splits
      dest: Do_sentD)

lemma unmarshal_first_assets:
  \<open>json_Unmarshal_ListResponse store_Asset_ptr ''{"items":[{"id":"a"},{"id":"b"}],"continuationToken":"tok1"}'' =
     (Some (first_page asset), None)\<close>
  by code_simp

lemma unmarshal_second_assets:
  \<open>json_Unmarshal_ListResponse store_Asset_ptr ''{"items":[{"id":"c"}]}'' = (Some (second_page asset), None)\<close>
  by code_simp

lemma unmarshal_first_components:
  \<open>json_Unmarshal_ListResponse store_Component_ptr ''{"items":[{"id":"a"},{"id":"b"}],"continuationToken":"tok1"}'' =
     (Some (first_page component), None)\<close>
  by code_simp

lemma unmarshal_second_components:
  \<open>json_Unmarshal_ListResponse store_Component_ptr ''{"items":[{"id":"c"}]}'' =
     (Some (second_page component), None)\<close>
  by code_simp

lemma no_nil_items:
  "None \<notin> set (Items (first_page asset))" "None \<notin> set (Items (second_page asset))"
  "None \<notin> set (Items (first_page component))" "None \<notin> set (Items (second_page component))"
  "\<not> (\<exists>c \<in> set (Items (first_page component)). case c of None \<Rightarrow> False | Some x \<Rightarrow> None \<in> set (Assets x))"
  "\<not> (\<exists>c \<in> set (Items (second_page component)). case c of None \<Rightarrow> False | Some x \<Rightarrow> None \<in> set (Assets x))"
  by (simp_all add: first_page_def second_page_def asset_def component_def no_Component_def)

lemma two_pages_ListAssets:
  "ListAssets (scripted_runtime two_pages) localhost (my_repo None) w =
     (Return (Some (first_page asset), None), \<lparr>ext = (), sent = sent w @ [list_request ''assets'' None]\<rparr>)"
  "ListAssets (scripted_runtime two_pages) localhost (my_repo (Some ''tok1'')) w =
     (Return (Some (second_page asset), None),
      \<lparr>ext = (), sent = sent w @ [list_request ''assets'' (Some ''tok1'')]\<rparr>)"
  by (simp_all add: ListAssets_def newListAssetsReq_def NewRequest_def Do_def Let_def my_repo_def
      two_pages_def status_with_def localhost_def list_request_def
      unmarshal_first_assets unmarshal_second_assets no_nil_items)

lemma two_pages_ListComponents:
  "ListComponents (scripted_runtime two_pages) localhost (my_repo None) w =
     (Return (Some (first_page component), None),
      \<lparr>ext = (), sent = sent w @ [list_request ''components'' None]\<rparr>)"
  "ListComponents (scripted_runtime two_pages) localhost (my_repo (Some ''tok1'')) w =
     (Return (Some (second_page component), None),
      \<lparr>ext = (), sent = sent w @ [list_request ''components'' (Some ''tok1'')]\<rparr>)"
  by (simp_all add: ListComponents_def newListComponentsReq_def NewRequest_def Do_def Let_def my_repo_def
      two_pages_def status_with_def localhost_def list_request_def
      unmarshal_first_components unmarshal_second_components no_nil_items)

lemma my_repo_next:
  "\<lparr>Repository = Repository (my_repo t), ContinuationToken = Some t'\<rparr> = my_repo (Some t')"
  by (simp add: my_repo_def)

lemma page_tokens: "NextToken (first_page i) = Some ''tok1''" "NextToken (second_page i) = None"
  by (simp_all add: first_page_def second_page_def)

lemma two_pages_served:
  "served (ListAssets (scripted_runtime two_pages) localhost) keep_going (my_repo None) world0
     [first_page asset, second_page asset]"
  "served (ListComponents (scripted_runtime two_pages) localhost) keep_going (my_repo None) world0
     [first_page component, second_page component]"
  by (simp_all add: two_pages_ListAssets two_pages_ListComponents my_repo_next page_tokens keep_going_def)

lemma scripted_status_code_text:
  "status_code_text (scripted_runtime f) m u c = m @ '' '' @ u @ '' returned an unexpected status code''"
  by (simp add: scripted_runtime_def)

lemma get_unreachable_CreateScript:
  "CreateScript (scripted_runtime get_unreachable) localhost p1
     \<lparr>ext = (), sent = [get_request localhost ''p1'']\<rparr> =
     (Return (Some p1, None),
      \<lparr>ext = (),
       sent = [get_request localhost ''p1'',
               create_request (scripted_runtime get_unreachable) localhost p1]\<rparr>)"
  by (simp add: p1_def run_defs get_unreachable_def get_request_def create_request_def
      script_request_def)

lemma always_500_GetScript:
  "GetScript (scripted_runtime (always 500 [])) localhost ''p1'' world0 =
     (Return (None, Some (ErrorString
        (''GET http://localhost:8081/service/rest/v1/script/p1 returned an unexpected status code''))),
      \<lparr>ext = (), sent = [get_request localhost ''p1'']\<rparr>)"
  by (simp add: run_defs always_def get_request_def script_request_def scripted_status_code_text)

lemma always_500_CreateScript:
  "CreateScript (scripted_runtime (always 500 [])) localhost p1
     \<lparr>ext = (), sent = [get_request localhost ''p1'']\<rparr> =
     (Return (None, Some (ErrorString
        ''Script with name p1 already exists, use UpdateScript instead'')),
      \<lparr>ext = (),
       sent = [get_request localhost ''p1'',
               create_request (scripted_runtime (always 500 [])) localhost p1]\<rparr>)"
  by (simp add: p1_def run_defs always_def get_request_def create_request_def script_request_def)

lemma ExecuteScript_succeeded:
  assumes "marshalScriptArgs rt args = Inr payload"
    and "url_error rt (URL (run_request n name payload)) = None"
    and "Do rt (run_request n name payload) None True w = (Inr body, w1)"
  shows "ExecuteScript rt n name args w =
     (case json_Unmarshal_Response body of
        (res, Some je) \<Rightarrow> (Return (res, Some (JsonError je)), w1)
      | (res, None) \<Rightarrow> (Return (res, None), w1))"
  using assms by (simp add: ExecuteScript_def NewRequest_def run_request_def script_request_def)

lemma ExecuteScript_no_marshal:
  "marshalScriptArgs rt args = Inl e \<Longrightarrow> ExecuteScript rt n name args w = (Return (None, Some e), w)"
  by (simp add: ExecuteScript_def)

lemma ExecuteScript_no_url:
  assumes "marshalScriptArgs rt args = Inr payload"
    and "url_error rt (URL (run_request n name payload)) = Some m"
  shows "ExecuteScript rt n name args w = (Return (None, Some (ErrorString m)), w)"
  using assms by (simp add: ExecuteScript_def NewRequest_def run_request_def script_request_def)

lemma ephemeral_calls:
  assumes uu: "uuid_New rt (ext w) = (u, s0)"
  shows "issued w (snd (EphemeralScript_Execute rt n s args w)) =
     (let sc = \<lparr>Name = Some u, Content = Content s, Type = ScriptTypeGroovy\<rparr> in
      create_calls rt n sc @
      (if fst (CreateScript rt n sc (w\<lparr>ext := s0\<rparr>)) = Return (Some sc, None)
       then run_calls rt n sc args @ delete_calls rt n u else []))"
proof -
  let ?sc = "\<lparr>Name = Some u, Content = Content s, Type = ScriptTypeGroovy\<rparr>"
  obtain c0 w1 where cr: "CreateScript rt n ?sc (w\<lparr>ext := s0\<rparr>) = (c0, w1)"
    by (cases "CreateScript rt n ?sc (w\<lparr>ext := s0\<rparr>)")
  from CreateScript_sent [OF cr]
  have s1: "sent w1 = sent w @ create_calls rt n ?sc" by (simp add: create_calls_def)
  from CreateScript_result [OF cr] show ?thesis
  proof
    assume "\<exists>e. c0 = Return (None, Some e)"
    then obtain e where c0: "c0 = Return (None, Some e)" ..
    from ephemeral_create_failed [OF uu cr [unfolded c0]]
    have "EphemeralScript_Execute rt n s args w = (Return (None, Some e), w1)" .
    with s1 cr c0 show ?thesis by (simp add: issued_def Let_def)
  next
    assume "c0 = Return (Some ?sc, None) \<and> Name ?sc \<noteq> None \<and> Content ?sc \<noteq> None"
    then have c0: "c0 = Return (Some ?sc, None)" by simp
    obtain r w2 where x: "Script_Execute rt n ?sc args w1 = (r, w2)"
      by (cases "Script_Execute rt n ?sc args w1")
    obtain d0 w3 where dl: "DeleteScript rt n u w2 = (d0, w3)" by (cases "DeleteScript rt n u w2")
    from DeleteScript_returns [of rt n u w2] dl obtain d where d0: "d0 = Return d" by auto
    from Script_Execute_sent [OF x]
    have s2: "sent w2 = sent w1 @ run_calls rt n ?sc args" by (simp add: run_calls_def)
    from DeleteScript_sent [OF dl]
    have s3: "sent w3 = sent w2 @ delete_calls rt n u" by (simp add: delete_calls_def)
    from ephemeral_created [OF uu cr [unfolded c0] x dl [unfolded d0]]
    have "EphemeralScript_Execute rt n s args w = (r, w3)" by simp
    with s1 s2 s3 cr c0 show ?thesis by (simp add: issued_def Let_def)
  qed
qed

lemma bridge_calls:
  assumes nm: "Name s = Some name"
  shows "issued w (snd (ensureAndExecute rt n s args w)) =
     get_calls rt n name @
     (case GetScript rt n name w of
        (Return (g, Some e), w1) \<Rightarrow>
          create_calls rt n s @
          (if fst (CreateScript rt n s w1) = Return (Some s, None) then run_calls rt n s args
           else [])
      | (Return (Some r, None), w1) \<Rightarrow>
          (case (Content r, Content s) of
             (Some rb, Some b) \<Rightarrow>
               if rb = b then run_calls rt n r args
               else update_calls rt n s @
                    (if fst (UpdateScript rt n s w1) = Return (Some s, None)
                     then run_calls rt n s args else [])
           | _ \<Rightarrow> [])
      | _ \<Rightarrow> [])"
proof -
  obtain g0 w1 where g: "GetScript rt n name w = (g0, w1)" by (cases "GetScript rt n name w")
  from GetScript_sent [OF g]
  have s0: "sent w1 = sent w @ get_calls rt n name" by (simp add: get_calls_def)
  have run: "sent (snd (Script_Execute rt n sc args w')) = sent w' @ run_calls rt n sc args"
    for sc w'
    using Script_Execute_sent [of rt n sc args w' "fst (Script_Execute rt n sc args w')"
        "snd (Script_Execute rt n sc args w')"]
    by (simp add: run_calls_def)
  show ?thesis
  proof (cases g0)
    case Panic
    from eae_get_panic [OF nm g [unfolded Panic]] s0 g Panic show ?thesis
      by (simp add: issued_def)
  next
    case (Return p)
    obtain ro eo where p: "p = (ro, eo)" by (cases p)
    show ?thesis
    proof (cases eo)
      case (Some e)
      note g' = g [unfolded Return p Some]
      obtain c0 w2 where cr: "CreateScript rt n s w1 = (c0, w2)" by (cases "CreateScript rt n s w1")
      from CreateScript_sent [OF cr]
      have s1: "sent w2 = sent w1 @ create_calls rt n s" by (simp add: create_calls_def)
      from CreateScript_result [OF cr] show ?thesis
      proof
        assume "\<exists>e'. c0 = Return (None, Some e')"
        then obtain e' where c0: "c0 = Return (None, Some e')" ..
        from eae_create_failed [OF nm g' cr [unfolded c0]] s0 s1 g' cr c0 show ?thesis
          by (cases ro) (simp_all add: issued_def)
      next
        assume "c0 = Return (Some s, None) \<and> Name s \<noteq> None \<and> Content s \<noteq> None"
        then have c0: "c0 = Return (Some s, None)" by simp
        from eae_created [OF nm g' cr [unfolded c0]] s0 s1 g' cr c0 run [of s w2] show ?thesis
          by (cases ro) (simp_all add: issued_def)
      qed
    next
      case None
      note g' = g [unfolded Return p None]
      show ?thesis
      proof (cases ro)
        case None
        with g' GetScript_not_nil [of rt n name w w1] show ?thesis by simp
      next
        case (Some r)
        note g'' = g' [unfolded Some]
        show ?thesis
        proof (cases "Content r")
          case None
          from eae_nil_content [OF nm g''] None s0 g'' show ?thesis
            by (simp add: issued_def)
        next
          case rb: (Some rb)
          show ?thesis
          proof (cases "Content s")
            case None
            from eae_nil_content [OF nm g''] None rb s0 g'' show ?thesis
              by (simp add: issued_def)
          next
            case b: (Some b)
            show ?thesis
            proof (cases "rb = b")
              case True
              from eae_unchanged [OF nm g'' rb b [folded True]] rb b True s0 g'' run [of r w1]
              show ?thesis by (simp add: issued_def)
            next
              case False
              obtain u0 w2 where up: "UpdateScript rt n s w1 = (u0, w2)"
                by (cases "UpdateScript rt n s w1")
              from UpdateScript_sent [OF up nm] nm
              have s1: "sent w2 = sent w1 @ update_calls rt n s" by (simp add: update_calls_def)
              from UpdateScript_result [OF up] show ?thesis
              proof
                assume "\<exists>e'. u0 = Return (None, Some e')"
                then obtain e' where u0: "u0 = Return (None, Some e')" ..
                from eae_update_failed [OF nm g'' rb b False up [unfolded u0]]
                  rb b False s0 s1 g'' up u0
                show ?thesis by (simp add: issued_def)
              next
                assume "u0 = Return (Some s, None) \<and> Name s \<noteq> None \<and> Content s \<noteq> None"
                then have u0: "u0 = Return (Some s, None)" by simp
                from eae_updated [OF nm g'' rb b False up [unfolded u0]]
                  rb b False s0 s1 g'' up u0 run [of s w2]
                show ?thesis by (simp add: issued_def)
              qed
            qed
          qed
        qed
      qed
    qed
  qed
qed

lemma raising_EphemeralScript_Execute:
  "EphemeralScript_Execute (scripted_runtime raising) localhost p1 None world0 =
     (Return (Some \<lparr>ResponseName = Some ''x'', Result = Some ''boom''\<rparr>, Some (ErrorString ''boom'')),
      \<lparr>ext = (),
       sent = [create_request (scripted_runtime raising) localhost
                 \<lparr>Name = Some generated_name, Content = Some ''return 1'', Type = ScriptTypeGroovy\<rparr>,
               run_request localhost generated_name None,
               delete_request localhost generated_name]\<rparr>)"
  by (simp add: EphemeralScript_Execute_def p1_def run_defs raising_def unmarshal_boom
      generated_name_def create_request_def run_request_def delete_request_def script_request_def)

lemma always_500_EphemeralScript_Execute:
  "EphemeralScript_Execute (scripted_runtime (always 500 [])) localhost p1 None world0 =
     (Return (None, Some (ErrorString
        (''Script with name '' @ generated_name @ '' already exists, use UpdateScript instead''))),
      \<lparr>ext = (),
       sent = [create_request (scripted_runtime (always 500 [])) localhost
                 \<lparr>Name = Some generated_name, Content = Some ''return 1'', Type = ScriptTypeGroovy\<rparr>]\<rparr>)"
  by (simp add: EphemeralScript_Execute_def p1_def run_defs always_def
      generated_name_def create_request_def script_request_def)

lemma always_500_ensureAndExecute:
  "ensureAndExecute (scripted_runtime (always 500 [])) localhost p1 None world0 =
     (Return (None, Some (ErrorString
        ''Script with name p1 already exists, use UpdateScript instead'')),
      \<lparr>ext = (),
       sent = [get_request localhost ''p1'',
               create_request (scripted_runtime (always 500 [])) localhost p1]\<rparr>)"
  using eae_create_failed [where s = p1 and args = None,
      OF _ always_500_GetScript always_500_CreateScript]
  by (simp add: p1_def)

section \<open>Direct creation\<close>

text \<open>
  C7, as amended.  For every script whose name or content is nil (absent),
  \<open>CreateScript\<close> returns the error "Script instance must contain a name and
  content" and no script, and the world is as it was before the call: no request
  has been handed to the HTTP client.  (An empty string is not nil.)
\<close>

theorem CreateScript_nil_field_rejected:
  assumes "Name script = None \<or> Content script = None"
  shows "CreateScript rt n script w =
     (Return (None, Some (ErrorString ''Script instance must contain a name and content'')), w)"
  using assms by (auto simp: CreateScript_def split: option.splits)

theorem CreateScript_nil_field_rejected_witness:
  "CreateScript (scripted_runtime (\<lambda>r. status_with 204 [])) localhost
     \<lparr>Name = None, Content = Some ''return 1'', Type = ScriptTypeGroovy\<rparr> world0 =
     (Return (None, Some (ErrorString ''Script instance must contain a name and content'')), world0)"
  using CreateScript_nil_field_rejected
    [of "\<lparr>Name = None, Content = Some ''return 1'', Type = ScriptTypeGroovy\<rparr>"
        "scripted_runtime (\<lambda>r. status_with 204 [])" localhost world0]
  by simp

text \<open>
  C7 as stated fails for the empty string: a script whose name and content are both
  the empty string passes the check, its creation request reaches the server, and the
  call succeeds when the server accepts it.
\<close>

theorem CreateScript_empty_strings_reach_server:
  "CreateScript (scripted_runtime (\<lambda>r. status_with 204 [])) localhost
     \<lparr>Name = Some [], Content = Some [], Type = ScriptTypeGroovy\<rparr> world0 =
     (Return (Some \<lparr>Name = Some [], Content = Some [], Type = ScriptTypeGroovy\<rparr>, None),
      \<lparr>ext = (),
       sent = [\<lparr>Method = ''POST'', URL = ''http://localhost:8081/service/rest/v1/script'',
                Args = None, Body = Some '':'', ContentType = ''application/json'',
                BasicAuth = (''admin'', ''admin123'')\<rparr>]\<rparr>)"
  by (simp add: CreateScript_def NewRequest_def Do_def status_with_def localhost_def world0_def)

section \<open>Execution failures\<close>

text \<open>
  C3.  Let the execute request be answered with a status code of 300 or more, so that
  script execution fails with the response body as the error text.  When the body is
  the JSON object with name "x" and result "boom", \<open>ExecuteScript\<close> returns the error
  whose message is exactly "boom".  When decoding the body fails, \<open>ExecuteScript\<close>
  returns that decoding error itself.
\<close>

theorem ExecuteScript_error_body:
  assumes "marshalScriptArgs rt args = Inr payload"
    and "url_error rt (URL (run_request n name payload)) = None"
    and "client_Do rt (run_request n name payload) (ext w) = (Response resp, s')"
    and "300 \<le> StatusCode resp"
  shows \<open>(RespBody resp = ''{"name":"x","result":"boom"}'' \<longrightarrow>
            (\<exists>res e. fst (ExecuteScript rt n name args w) = Return (res, Some e) \<and>
                     e = ErrorString ''boom'' \<and> Error rt e = ''boom''))
         \<and> (\<forall>res je. json_Unmarshal_Response (RespBody resp) = (res, Some je) \<longrightarrow>
              fst (ExecuteScript rt n name args w) = Return (res, Some (JsonError je)))\<close>
proof -
  let ?w1 = "\<lparr>ext = s', sent = sent w @ [run_request n name payload]\<rparr>"
  have d: "Do rt (run_request n name payload) None True w = (Inl (ErrorString (RespBody resp)), ?w1)"
    using assms(3,4) by (rule Do_body_as_error)
  note ex = ExecuteScript_failed [OF assms(1,2) d]
  show ?thesis
    by (auto simp: ex unmarshal_boom split: option.splits)
qed

theorem ExecuteScript_error_body_witness:
  \<open>(\<exists>res e. fst (ExecuteScript (scripted_runtime (\<lambda>r. status_with 500 ''{"name":"x","result":"boom"}''))
                    localhost ''x'' None world0) = Return (res, Some e) \<and>
             e = ErrorString ''boom'' \<and>
             Error (scripted_runtime (\<lambda>r. status_with 500 ''{"name":"x","result":"boom"}'')) e = ''boom'')
   \<and> fst (ExecuteScript (scripted_runtime (\<lambda>r. status_with 500 ''oops'')) localhost ''x'' None world0) =
     Return (None, Some (JsonError SyntaxError))\<close>
proof -
  have m: "marshalScriptArgs rt None = Inr None" for rt :: "(unit, unit) runtime"
    by (simp add: marshalScriptArgs_def)
  have a: \<open>\<exists>res e. fst (ExecuteScript (scripted_runtime (\<lambda>r. status_with 500 ''{"name":"x","result":"boom"}''))
                    localhost ''x'' None world0) = Return (res, Some e) \<and>
             e = ErrorString ''boom'' \<and>
             Error (scripted_runtime (\<lambda>r. status_with 500 ''{"name":"x","result":"boom"}'')) e = ''boom''\<close>
    using ExecuteScript_error_body
      [of \<open>scripted_runtime (\<lambda>r. status_with 500 ''{"name":"x","result":"boom"}'')\<close> None None
          localhost "''x''" world0
          \<open>\<lparr>StatusCode = 500, RespBody = ''{"name":"x","result":"boom"}'', ReadErr = None\<rparr>\<close> "()",
       OF m]
    by (simp add: status_with_def)
  have b: \<open>fst (ExecuteScript (scripted_runtime (\<lambda>r. status_with 500 ''oops'')) localhost ''x'' None world0) =
     Return (None, Some (JsonError SyntaxError))\<close>
    using ExecuteScript_error_body
      [of \<open>scripted_runtime (\<lambda>r. status_with 500 ''oops'')\<close> None None localhost "''x''" world0
          \<open>\<lparr>StatusCode = 500, RespBody = ''oops'', ReadErr = None\<rparr>\<close> "()", OF m]
    by (simp add: status_with_def unmarshal_not_json)
  from a b show ?thesis by blast
qed

text \<open>
  C10.  Let the execute request be answered with a status code of 300 or more and a
  body that decodes without error but yields no result: the decoded response is nil,
  or its result field is nil.  Then \<open>ExecuteScript\<close> does not return: it panics on the
  nil pointer.  The bodies \<open>{}\<close> and \<open>null\<close> are such bodies.
\<close>

theorem ExecuteScript_panics_without_result:
  assumes "marshalScriptArgs rt args = Inr payload"
    and "url_error rt (URL (run_request n name payload)) = None"
    and "client_Do rt (run_request n name payload) (ext w) = (Response resp, s')"
    and "300 \<le> StatusCode resp"
    and "json_Unmarshal_Response (RespBody resp) = (res, None)"
    and "res = None \<or> (\<exists>r. res = Some r \<and> Result r = None)"
  shows "fst (ExecuteScript rt n name args w) = Panic"
proof -
  let ?w1 = "\<lparr>ext = s', sent = sent w @ [run_request n name payload]\<rparr>"
  have d: "Do rt (run_request n name payload) None True w = (Inl (ErrorString (RespBody resp)), ?w1)"
    using assms(3,4) by (rule Do_body_as_error)
  note ex = ExecuteScript_failed [OF assms(1,2) d]
  from assms(6) show ?thesis
    by (auto simp: ex assms(5) split: option.splits)
qed

theorem ExecuteScript_panics_without_result_witness:
  \<open>fst (ExecuteScript (scripted_runtime (\<lambda>r. status_with 500 ''{}'')) localhost ''x'' None world0) = Panic
   \<and> fst (ExecuteScript (scripted_runtime (\<lambda>r. status_with 400 ''null'')) localhost ''x'' None world0) = Panic\<close>
proof -
  have a: \<open>fst (ExecuteScript (scripted_runtime (\<lambda>r. status_with 500 ''{}'')) localhost ''x'' None world0) = Panic\<close>
    using ExecuteScript_panics_without_result
      [of \<open>scripted_runtime (\<lambda>r. status_with 500 ''{}'')\<close> None None localhost "''x''" world0
          \<open>\<lparr>StatusCode = 500, RespBody = ''{}'', ReadErr = None\<rparr>\<close> "()"
          "Some \<lparr>ResponseName = None, Result = None\<rparr>"]
    by (simp add: marshalScriptArgs_def status_with_def unmarshal_empty_object)
  have b: \<open>fst (ExecuteScript (scripted_runtime (\<lambda>r. status_with 400 ''null'')) localhost ''x'' None world0) = Panic\<close>
    using ExecuteScript_panics_without_result
      [of \<open>scripted_runtime (\<lambda>r. status_with 400 ''null'')\<close> None None localhost "''x''" world0
          \<open>\<lparr>StatusCode = 400, RespBody = ''null'', ReadErr = None\<rparr>\<close> "()" None]
    by (simp add: marshalScriptArgs_def status_with_def unmarshal_null)
  from a b show ?thesis by simp
qed
section \<open>The reconciliation bridge\<close>

text \<open>
  C1, as amended.  For a desired script with a name and a content (and an acceptable
  creation address), the creation request of \<open>ensureAndExecute\<close> is issued exactly
  when \<open>GetScript\<close> on the desired name returns an error, whatever the error is: no
  kind of failure is told apart.  \<open>CreateScript\<close> is then called with the desired
  script from the world the get step left, and the error of the get step is dropped:
  when \<open>CreateScript\<close> fails, its error is returned with a nil result, and neither an
  update nor an execute request is issued; when it succeeds, the call is the execution
  of the desired script from the world the create step left, and returns whatever
  that execution returns.
\<close>

theorem ensureAndExecute_creates_after_any_get_failure:
  assumes nm: "Name s = Some name" and ct: "Content s = Some body"
    and url: "url_error rt (URL (create_request rt n s)) = None"
  shows "(create_request rt n s \<in> set (issued w (snd (ensureAndExecute rt n s args w)))
            \<longleftrightarrow> (\<exists>g e w1. GetScript rt n name w = (Return (g, Some e), w1)))
         \<and> (\<forall>g e w1 c e' w2.
              GetScript rt n name w = (Return (g, Some e), w1) \<longrightarrow>
              CreateScript rt n s w1 = (Return (c, Some e'), w2) \<longrightarrow>
                ensureAndExecute rt n s args w = (Return (None, Some e'), w2) \<and>
                Update \<notin> set (map call_of (issued w w2)) \<and>
                Execute \<notin> set (map call_of (issued w w2)))
         \<and> (\<forall>g e w1.
              GetScript rt n name w = (Return (g, Some e), w1) \<longrightarrow>
                (\<exists>r w2. CreateScript rt n s w1 = (Return r, w2) \<and>
                        issued w1 w2 = [create_request rt n s] \<and>
                        (case r of
                           (c, Some e') \<Rightarrow>
                             ensureAndExecute rt n s args w = (Return (None, Some e'), w2)
                         | (c, None) \<Rightarrow>
                             ensureAndExecute rt n s args w = Script_Execute rt n s args w2)))"
proof (intro conjI allI impI)
  obtain g0 w1 where g: "GetScript rt n name w = (g0, w1)" by (cases "GetScript rt n name w")
  let ?G = "if url_error rt (URL (get_request n name)) = None then [get_request n name] else []"
  from GetScript_sent [OF g] have s1: "sent w1 = sent w @ ?G" .
  from eae_after_get [OF nm g, of args] obtain c x where
    fin: "sent (snd (ensureAndExecute rt n s args w)) = sent w1 @ c @ x"
    and c: "if \<exists>r e. g0 = Return (r, Some e)
            then c = (if Content s \<noteq> None \<and> url_error rt (URL (create_request rt n s)) = None
                      then [create_request rt n s] else [])
            else c = [] \<or> c = [update_request rt n name s]"
    and x: "x = [] \<or> (\<exists>nm p. x = [run_request n nm p])" by blast
  from fin s1 have i: "issued w (snd (ensureAndExecute rt n s args w)) = ?G @ c @ x"
    by (simp add: issued_def)
  show "create_request rt n s \<in> set (issued w (snd (ensureAndExecute rt n s args w)))
            \<longleftrightarrow> (\<exists>g e w1. GetScript rt n name w = (Return (g, Some e), w1))"
  proof (cases "\<exists>r e. g0 = Return (r, Some e)")
    case True
    with c ct url have "c = [create_request rt n s]" by simp
    with i True g show ?thesis by auto
  next
    case False
    with c have "c = [] \<or> c = [update_request rt n name s]" by simp
    with x i have "create_request rt n s \<notin> set (issued w (snd (ensureAndExecute rt n s args w)))"
      by (auto simp: create_request_distinct)
    with False g show ?thesis by auto
  qed
next
  fix g e w1 c e' w2
  assume g: "GetScript rt n name w = (Return (g, Some e), w1)"
    and cr: "CreateScript rt n s w1 = (Return (c, Some e'), w2)"
  show "ensureAndExecute rt n s args w = (Return (None, Some e'), w2)"
    by (rule eae_create_failed [OF nm g cr])
  from GetScript_sent [OF g] CreateScript_sent [OF cr]
  have "issued w w2 =
      (if url_error rt (URL (get_request n name)) = None then [get_request n name] else []) @
      [create_request rt n s]"
    using nm ct url by (simp add: issued_def)
  then show "Update \<notin> set (map call_of (issued w w2))"
    and "Execute \<notin> set (map call_of (issued w w2))" by auto
next
  fix g e w1
  assume g: "GetScript rt n name w = (Return (g, Some e), w1)"
  obtain c0 w2 where cr: "CreateScript rt n s w1 = (c0, w2)" by (cases "CreateScript rt n s w1")
  from CreateScript_sent [OF cr] nm ct url
  have i: "issued w1 w2 = [create_request rt n s]" by (simp add: issued_def)
  from CreateScript_result [OF cr]
  show "\<exists>r w2. CreateScript rt n s w1 = (Return r, w2) \<and>
                        issued w1 w2 = [create_request rt n s] \<and>
                        (case r of
                           (c, Some e') \<Rightarrow>
                             ensureAndExecute rt n s args w = (Return (None, Some e'), w2)
                         | (c, None) \<Rightarrow>
                             ensureAndExecute rt n s args w = Script_Execute rt n s args w2)"
  proof
    assume "\<exists>e'. c0 = Return (None, Some e')"
    then obtain e' where c0: "c0 = Return (None, Some e')" ..
    with cr have "ensureAndExecute rt n s args w = (Return (None, Some e'), w2)"
      using eae_create_failed [OF nm g] by simp
    with cr c0 i show ?thesis
      by (intro exI [of _ "(None, Some e')"] exI [of _ w2]) simp
  next
    assume "c0 = Return (Some s, None) \<and> Name s \<noteq> None \<and> Content s \<noteq> None"
    then have c0: "c0 = Return (Some s, None)" by simp
    with cr have "ensureAndExecute rt n s args w = Script_Execute rt n s args w2"
      using eae_created [OF nm g] by simp
    with cr c0 i show ?thesis
      by (intro exI [of _ "(Some s, None)"] exI [of _ w2]) simp
  qed
qed

text \<open>
  C1 as stated fails when the get step fails for another reason than absence: with a
  server that cannot be reached for the GET request, the get step returns the
  transport error "connection refused", the script is created all the same, and the
  call returns the result of the execution: the transport error is not surfaced.
\<close>

theorem ensureAndExecute_creates_after_transport_error:
  "fst (GetScript (scripted_runtime get_unreachable) localhost ''p1'' world0) =
     Return (None, Some (ErrorString ''connection refused''))
   \<and> ensureAndExecute (scripted_runtime get_unreachable) localhost p1 None world0 =
     (Return (Some \<lparr>ResponseName = Some ''p1'', Result = Some ''1''\<rparr>, None),
      \<lparr>ext = (),
       sent = [get_request localhost ''p1'',
               create_request (scripted_runtime get_unreachable) localhost p1,
               run_request localhost ''p1'' None]\<rparr>)"
  using get_unreachable_GetScript get_unreachable_ensureAndExecute by simp

theorem ensureAndExecute_creates_after_any_get_failure_witness:
  "create_request (scripted_runtime get_unreachable) localhost p1
     \<in> set (issued world0 (snd (ensureAndExecute (scripted_runtime get_unreachable) localhost p1 None world0)))
   \<and> ensureAndExecute (scripted_runtime get_unreachable) localhost p1 None world0 =
       Script_Execute (scripted_runtime get_unreachable) localhost p1 None
         \<lparr>ext = (),
          sent = [get_request localhost ''p1'',
                  create_request (scripted_runtime get_unreachable) localhost p1]\<rparr>
   \<and> ensureAndExecute (scripted_runtime (always 500 [])) localhost p1 None world0 =
       (Return (None, Some (ErrorString
          ''Script with name p1 already exists, use UpdateScript instead'')),
        \<lparr>ext = (),
         sent = [get_request localhost ''p1'',
                 create_request (scripted_runtime (always 500 [])) localhost p1]\<rparr>)"
proof -
  have nm: "Name p1 = Some ''p1''" and ct: "Content p1 = Some ''return 1''"
    by (simp_all add: p1_def)
  have url: "url_error (scripted_runtime f) (URL (create_request (scripted_runtime f) localhost p1)) = None"
    for f by simp
  note t = ensureAndExecute_creates_after_any_get_failure [OF nm ct url]
  have a: "create_request (scripted_runtime get_unreachable) localhost p1
     \<in> set (issued world0 (snd (ensureAndExecute (scripted_runtime get_unreachable) localhost p1 None world0)))"
    using t [of get_unreachable world0 None, THEN conjunct1] get_unreachable_GetScript by simp
  have b: "ensureAndExecute (scripted_runtime get_unreachable) localhost p1 None world0 =
       Script_Execute (scripted_runtime get_unreachable) localhost p1 None
         \<lparr>ext = (),
          sent = [get_request localhost ''p1'',
                  create_request (scripted_runtime get_unreachable) localhost p1]\<rparr>"
    using t [of get_unreachable world0 None, THEN conjunct2, THEN conjunct2, rule_format,
        OF get_unreachable_GetScript]
    by (auto simp: get_unreachable_CreateScript)
  have c: "ensureAndExecute (scripted_runtime (always 500 [])) localhost p1 None world0 =
       (Return (None, Some (ErrorString
          ''Script with name p1 already exists, use UpdateScript instead'')),
        \<lparr>ext = (),
         sent = [get_request localhost ''p1'',
                 create_request (scripted_runtime (always 500 [])) localhost p1]\<rparr>)"
    by (rule t [of "always 500 []" world0 None, THEN conjunct2, THEN conjunct1, rule_format,
        THEN conjunct1, OF always_500_GetScript always_500_CreateScript])
  from a b c show ?thesis by blast
qed

text \<open>
  C2.  Let the desired script have a name and a content, and let the get step return
  the remote script, with a stored content.  When the stored content equals the
  desired one, \<open>ensureAndExecute\<close> goes on with the execution of the remote script
  from the world the get step left, and issues no update request.  When they differ,
  \<open>UpdateScript\<close> is called with the desired script right after the get step and
  issues one update request, carrying the desired name, type and content; when it
  fails, its error is returned from the world it left (nothing is executed), when it
  succeeds the desired script is executed from there; in both cases it is the only
  update request of the whole call.
\<close>

theorem ensureAndExecute_drift_triggers_update:
  assumes nm: "Name s = Some name" and ct: "Content s = Some desired"
    and g: "GetScript rt n name w = (Return (Some remote, None), w1)"
    and rc: "Content remote = Some stored"
  shows "(stored = desired \<longrightarrow>
            ensureAndExecute rt n s args w = Script_Execute rt n remote args w1 \<and>
            Update \<notin> set (map call_of (issued w (snd (ensureAndExecute rt n s args w)))))
       \<and> (stored \<noteq> desired \<longrightarrow>
            (\<exists>u w2. UpdateScript rt n s w1 = (Return u, w2) \<and>
                    issued w1 w2 = [update_request rt n name s] \<and>
                    (case u of
                       (b, Some e) \<Rightarrow> ensureAndExecute rt n s args w = (Return (None, Some e), w2)
                     | (b, None) \<Rightarrow> ensureAndExecute rt n s args w = Script_Execute rt n s args w2) \<and>
                    filter (\<lambda>r. call_of r = Update) (issued w (snd (ensureAndExecute rt n s args w))) =
                      [update_request rt n name s]))"
proof (intro conjI impI)
  have s1: "sent w1 = sent w @ [get_request n name]"
    using GetScript_sent [OF g] GetScript_ok_url [OF g] by simp
  have run: "\<exists>x. sent (snd (Script_Execute rt n sc args w2)) = sent w2 @ x \<and>
                  (x = [] \<or> (\<exists>nm p. x = [run_request n nm p]))" for sc w2
    using Script_Execute_shape [of rt n sc args w2] by (cases "Script_Execute rt n sc args w2") auto
  {
    assume eq: "stored = desired"
    with eae_unchanged [OF nm g rc] ct
    show e: "ensureAndExecute rt n s args w = Script_Execute rt n remote args w1" by simp
    from run [of remote w1] obtain x where
      "sent (snd (Script_Execute rt n remote args w1)) = sent w1 @ x"
      "x = [] \<or> (\<exists>nm p. x = [run_request n nm p])" by blast
    with e s1 show "Update \<notin> set (map call_of (issued w (snd (ensureAndExecute rt n s args w))))"
      by (auto simp: issued_def)
  }
  {
    assume ne: "stored \<noteq> desired"
    obtain u0 w2 where up: "UpdateScript rt n s w1 = (u0, w2)" by (cases "UpdateScript rt n s w1")
    from UpdateScript_sent [OF up nm] ct
    have s2: "sent w2 = sent w1 @ [update_request rt n name s]"
      using GetScript_ok_url [OF g] by (simp add: same_script_url)
    from UpdateScript_result [OF up]
    show "\<exists>u w2. UpdateScript rt n s w1 = (Return u, w2) \<and>
                    issued w1 w2 = [update_request rt n name s] \<and>
                    (case u of
                       (b, Some e) \<Rightarrow> ensureAndExecute rt n s args w = (Return (None, Some e), w2)
                     | (b, None) \<Rightarrow> ensureAndExecute rt n s args w = Script_Execute rt n s args w2) \<and>
                    filter (\<lambda>r. call_of r = Update) (issued w (snd (ensureAndExecute rt n s args w))) =
                      [update_request rt n name s]"
    proof
      assume "\<exists>e'. u0 = Return (None, Some e')"
      then obtain e' where u0: "u0 = Return (None, Some e')" ..
      with up have e: "ensureAndExecute rt n s args w = (Return (None, Some e'), w2)"
        using eae_update_failed [OF nm g rc ct ne] by simp
      show ?thesis
        by (rule exI [of _ "(None, Some e')"], rule exI [of _ w2])
          (use up u0 e s1 s2 in \<open>simp add: issued_def\<close>)
    next
      assume "u0 = Return (Some s, None) \<and> Name s \<noteq> None \<and> Content s \<noteq> None"
      then have u0: "u0 = Return (Some s, None)" by simp
      with up have e: "ensureAndExecute rt n s args w = Script_Execute rt n s args w2"
        using eae_updated [OF nm g rc ct ne] by simp
      from run [of s w2] obtain x where
        "sent (snd (Script_Execute rt n s args w2)) = sent w2 @ x"
        "x = [] \<or> (\<exists>nm p. x = [run_request n nm p])" by blast
      with e s1 s2 have
        "filter (\<lambda>r. call_of r = Update) (issued w (snd (ensureAndExecute rt n s args w))) =
           [update_request rt n name s]"
        by (auto simp: issued_def)
      then show ?thesis
        by (intro exI [of _ "(Some s, None)"] exI [of _ w2])
          (use up u0 e s2 in \<open>simp add: issued_def\<close>)
    qed
  }
qed

theorem ensureAndExecute_drift_triggers_update_witness:
  \<open>Update \<notin> set (map call_of (issued world0 (snd (ensureAndExecute
       (scripted_runtime (holding ''{"name":"p1","content":"return 1","type":"groovy"}''))
       localhost p1 None world0))))
   \<and> filter (\<lambda>r. call_of r = Update) (issued world0 (snd (ensureAndExecute
       (scripted_runtime (holding ''{"name":"p1","content":"return 2","type":"groovy"}''))
       localhost p1 None world0))) =
     [update_request (scripted_runtime (holding ''{"name":"p1","content":"return 2","type":"groovy"}''))
        localhost ''p1'' p1]\<close>
proof -
  have nm: "Name p1 = Some ''p1''" and ct: "Content p1 = Some ''return 1''"
    by (simp_all add: p1_def)
  have a: \<open>Update \<notin> set (map call_of (issued world0 (snd (ensureAndExecute
       (scripted_runtime (holding ''{"name":"p1","content":"return 1","type":"groovy"}''))
       localhost p1 None world0))))\<close>
    using ensureAndExecute_drift_triggers_update
      [OF nm ct holding_GetScript_same, of "''return 1''" None]
    by (simp (no_asm_use)) blast
  have ne: "''return 2'' \<noteq> ''return 1''" by simp
  have b: \<open>filter (\<lambda>r. call_of r = Update) (issued world0 (snd (ensureAndExecute
       (scripted_runtime (holding ''{"name":"p1","content":"return 2","type":"groovy"}''))
       localhost p1 None world0))) =
     [update_request (scripted_runtime (holding ''{"name":"p1","content":"return 2","type":"groovy"}''))
        localhost ''p1'' p1]\<close>
    using ensureAndExecute_drift_triggers_update
      [OF nm ct holding_GetScript_other, of "''return 2''" None]
    by (simp (no_asm_use)) blast
  from a b show ?thesis by blast
qed
section \<open>The order of the calls\<close>

text \<open>
  C9, as amended.  The requests that one call of \<open>ensureAndExecute\<close> issues are, in this
  order, at most one get, then at most one request that is a create or an update, then
  at most one execute: at most three requests, and never both a create and an update.
  The sequence stops at the first step that fails: after the get of the desired name,
  a get that returned an error is followed by the create of the desired script, and by
  the execution of the desired script only when the create succeeded; a get that
  returned a script with the desired content is followed by the execution of that
  script alone; a get that returned a script with another content is followed by the
  update of the desired script, and by the execution of the desired script only when
  the update succeeded; a panic of a step ends the sequence.

  The requests that one call of \<open>EphemeralScript.Execute\<close> issues are the create of the
  script with the generated name and nothing else when the create fails (no execute,
  no delete); when the create succeeds they are the create, then the execute, then the
  delete of the generated name, whatever the execution returned: a delete that is
  issued is the last request of the call.

  In each sequence a step issues its request unless it stops before it has one to send
  (\<open>get_calls\<close>, \<open>create_calls\<close>, \<open>update_calls\<close>, \<open>run_calls\<close>, \<open>delete_calls\<close>).
\<close>

theorem call_order:
  "bridge_order (map call_of (issued w (snd (ensureAndExecute rt n s args w))))
   \<and> length (issued w (snd (ensureAndExecute rt n s args w))) \<le> 3
   \<and> \<not> (Create \<in> set (map call_of (issued w (snd (ensureAndExecute rt n s args w)))) \<and>
        Update \<in> set (map call_of (issued w (snd (ensureAndExecute rt n s args w)))))
   \<and> ephemeral_order (map call_of (issued w (snd (EphemeralScript_Execute rt n s args w))))
   \<and> (Delete \<in> set (map call_of (issued w (snd (EphemeralScript_Execute rt n s args w)))) \<longrightarrow>
        last (map call_of (issued w (snd (EphemeralScript_Execute rt n s args w)))) = Delete)
   \<and> (\<forall>u s0. uuid_New rt (ext w) = (u, s0) \<longrightarrow>
        issued w (snd (EphemeralScript_Execute rt n s args w)) =
          (let sc = \<lparr>Name = Some u, Content = Content s, Type = ScriptTypeGroovy\<rparr> in
           create_calls rt n sc @
           (if fst (CreateScript rt n sc (w\<lparr>ext := s0\<rparr>)) = Return (Some sc, None)
            then run_calls rt n sc args @ delete_calls rt n u else [])))
   \<and> (Name s = None \<longrightarrow> issued w (snd (ensureAndExecute rt n s args w)) = [])
   \<and> (\<forall>name. Name s = Some name \<longrightarrow>
        issued w (snd (ensureAndExecute rt n s args w)) =
          get_calls rt n name @
          (case GetScript rt n name w of
             (Return (g, Some e), w1) \<Rightarrow>
               create_calls rt n s @
               (if fst (CreateScript rt n s w1) = Return (Some s, None) then run_calls rt n s args
                else [])
           | (Return (Some r, None), w1) \<Rightarrow>
               (case (Content r, Content s) of
                  (Some rb, Some b) \<Rightarrow>
                    if rb = b then run_calls rt n r args
                    else update_calls rt n s @
                         (if fst (UpdateScript rt n s w1) = Return (Some s, None)
                          then run_calls rt n s args else [])
                | _ \<Rightarrow> [])
           | _ \<Rightarrow> []))"
proof -
  from bridge_issued [of w rt n s args] obtain g c x where
    b: "issued w (snd (ensureAndExecute rt n s args w)) = g @ c @ x"
    "g = [] \<or> (\<exists>name. g = [get_request n name])"
    "c = [] \<or> c = [create_request rt n s] \<or> (\<exists>name. c = [update_request rt n name s])"
    "x = [] \<or> (\<exists>nm p. x = [run_request n nm p])" by blast
  from ephemeral_issued [of w rt n s args] obtain c' x' d' where
    e: "issued w (snd (EphemeralScript_Execute rt n s args w)) = c' @ x' @ d'"
    "c' = [] \<or> (\<exists>sc. c' = [create_request rt n sc])"
    "x' = [] \<or> (\<exists>nm p. x' = [run_request n nm p])"
    "d' = [] \<or> (\<exists>nm. d' = [delete_request n nm])" by blast
  have 1: "bridge_order (map call_of (g @ c @ x))"
    using b(2-4) by (auto simp: bridge_order_def skip_call_def skip_create_or_update_def)
  have 2: "length (g @ c @ x) \<le> 3" using b(2-4) by auto
  have 3: "\<not> (Create \<in> set (map call_of (g @ c @ x)) \<and> Update \<in> set (map call_of (g @ c @ x)))"
    using b(2-4) by auto
  have 4: "ephemeral_order (map call_of (c' @ x' @ d'))"
    using e(2-4) by (auto simp: ephemeral_order_def skip_call_def)
  have 5: "Delete \<in> set (map call_of (c' @ x' @ d')) \<longrightarrow> last (map call_of (c' @ x' @ d')) = Delete"
    using e(2-4) by auto
  have 6: "Name s = None \<longrightarrow> issued w (snd (ensureAndExecute rt n s args w)) = []"
    by (simp add: eae_nil_name issued_def)
  from 1 2 3 4 5 have "bridge_order (map call_of (issued w (snd (ensureAndExecute rt n s args w))))
   \<and> length (issued w (snd (ensureAndExecute rt n s args w))) \<le> 3
   \<and> \<not> (Create \<in> set (map call_of (issued w (snd (ensureAndExecute rt n s args w)))) \<and>
        Update \<in> set (map call_of (issued w (snd (ensureAndExecute rt n s args w)))))
   \<and> ephemeral_order (map call_of (issued w (snd (EphemeralScript_Execute rt n s args w))))
   \<and> (Delete \<in> set (map call_of (issued w (snd (EphemeralScript_Execute rt n s args w)))) \<longrightarrow>
        last (map call_of (issued w (snd (EphemeralScript_Execute rt n s args w)))) = Delete)"
    unfolding b(1) e(1) by blast
  moreover have "\<forall>u s0. uuid_New rt (ext w) = (u, s0) \<longrightarrow>
        issued w (snd (EphemeralScript_Execute rt n s args w)) =
          (let sc = \<lparr>Name = Some u, Content = Content s, Type = ScriptTypeGroovy\<rparr> in
           create_calls rt n sc @
           (if fst (CreateScript rt n sc (w\<lparr>ext := s0\<rparr>)) = Return (Some sc, None)
            then run_calls rt n sc args @ delete_calls rt n u else []))"
    using ephemeral_calls [of rt w _ _ n s args] by blast
  moreover have "\<forall>name. Name s = Some name \<longrightarrow>
        issued w (snd (ensureAndExecute rt n s args w)) =
          get_calls rt n name @
          (case GetScript rt n name w of
             (Return (g, Some e), w1) \<Rightarrow>
               create_calls rt n s @
               (if fst (CreateScript rt n s w1) = Return (Some s, None) then run_calls rt n s args
                else [])
           | (Return (Some r, None), w1) \<Rightarrow>
               (case (Content r, Content s) of
                  (Some rb, Some b) \<Rightarrow>
                    if rb = b then run_calls rt n r args
                    else update_calls rt n s @
                         (if fst (UpdateScript rt n s w1) = Return (Some s, None)
                          then run_calls rt n s args else [])
                | _ \<Rightarrow> [])
           | _ \<Rightarrow> [])"
    using bridge_calls [of s _ w rt n args] by blast
  ultimately show ?thesis using 6 by blast
qed

text \<open>
  C9 as stated fails when the create step fails: the ephemeral invoker then issues the
  create request alone, with neither an execute nor a delete, and the bridge issues
  the get and the create with no execute.
\<close>

theorem call_order_stops_at_failed_create:
  "map call_of (issued world0 (snd (EphemeralScript_Execute (scripted_runtime (always 500 []))
      localhost p1 None world0))) = [Create]
   \<and> map call_of (issued world0 (snd (ensureAndExecute (scripted_runtime (always 500 []))
      localhost p1 None world0))) = [Get, Create]"
  by (simp add: always_500_EphemeralScript_Execute always_500_ensureAndExecute issued_def
      sent_world0)

theorem call_order_witness:
  "issued world0 (snd (EphemeralScript_Execute (scripted_runtime raising) localhost p1 None world0)) =
     [create_request (scripted_runtime raising) localhost
        \<lparr>Name = Some generated_name, Content = Some ''return 1'', Type = ScriptTypeGroovy\<rparr>,
      run_request localhost generated_name None,
      delete_request localhost generated_name]
   \<and> last (map call_of (issued world0
        (snd (EphemeralScript_Execute (scripted_runtime raising) localhost p1 None world0)))) = Delete
   \<and> issued world0 (snd (ensureAndExecute (scripted_runtime get_unreachable) localhost p1 None world0)) =
     [get_request localhost ''p1'',
      create_request (scripted_runtime get_unreachable) localhost p1,
      run_request localhost ''p1'' None]
   \<and> bridge_order [Get, Create, Execute]
   \<and> issued world0 (snd (ensureAndExecute (scripted_runtime get_unreachable) localhost
        (p1\<lparr>Name := None\<rparr>) None world0)) = []"
proof -
  let ?rt = "scripted_runtime raising"
  let ?sc = "\<lparr>Name = Some generated_name, Content = Some ''return 1'', Type = ScriptTypeGroovy\<rparr>"
  note t = call_order [of world0 ?rt localhost p1 None]
  note t' = call_order [of world0 "scripted_runtime get_unreachable" localhost p1 None]
  have cr: "fst (CreateScript ?rt localhost ?sc (world0\<lparr>ext := ()\<rparr>)) = Return (Some ?sc, None)"
    by (simp add: run_defs raising_def)
  have a: "issued world0 (snd (EphemeralScript_Execute ?rt localhost p1 None world0)) =
     [create_request ?rt localhost ?sc, run_request localhost generated_name None,
      delete_request localhost generated_name]"
    using t [THEN conjunct2, THEN conjunct2, THEN conjunct2, THEN conjunct2, THEN conjunct2,
        THEN conjunct1, rule_format, OF scripted_uuid] cr
    by (simp add: p1_def Let_def create_calls_def run_calls_def delete_calls_def
        marshalScriptArgs_def)
  have b: "last (map call_of (issued world0
        (snd (EphemeralScript_Execute ?rt localhost p1 None world0)))) = Delete"
    using t [THEN conjunct2, THEN conjunct2, THEN conjunct2, THEN conjunct2, THEN conjunct1]
    by (simp add: a)
  have c: "issued world0 (snd (ensureAndExecute (scripted_runtime get_unreachable) localhost p1 None world0)) =
     [get_request localhost ''p1'',
      create_request (scripted_runtime get_unreachable) localhost p1,
      run_request localhost ''p1'' None]"
    using t' [THEN conjunct2, THEN conjunct2, THEN conjunct2, THEN conjunct2, THEN conjunct2,
        THEN conjunct2, THEN conjunct2, rule_format, of "''p1''"]
    by (simp add: get_unreachable_GetScript get_unreachable_CreateScript get_calls_def
        create_calls_def run_calls_def marshalScriptArgs_def)
      (simp add: p1_def)
  have d: "bridge_order [Get, Create, Execute]"
    using t' [THEN conjunct1] by (simp add: c)
  have e: "issued world0 (snd (ensureAndExecute (scripted_runtime get_unreachable) localhost
        (p1\<lparr>Name := None\<rparr>) None world0)) = []"
    using call_order [of world0 "scripted_runtime get_unreachable" localhost "p1\<lparr>Name := None\<rparr>" None,
        THEN conjunct2, THEN conjunct2, THEN conjunct2, THEN conjunct2, THEN conjunct2,
        THEN conjunct2, THEN conjunct1]
    by simp
  from a b c d e show ?thesis by blast
qed

section \<open>The ephemeral invoker\<close>

text \<open>
  C4.  Let \<open>u\<close> be the generated name.  When the create step succeeds,
  \<open>EphemeralScript.Execute\<close> executes the created script, then calls \<open>DeleteScript\<close> on
  \<open>u\<close> once, from the world the execution left and whatever the execution returned
  (a result, an error or a panic); what the deletion returns is dropped, the call
  returns what the execution returned, and the call issues exactly one delete request,
  for \<open>u\<close> (none when the library rejects its address).  When the create step fails,
  its error is returned with a nil result from the world the create step left, and no
  delete request is issued.
\<close>

theorem EphemeralScript_cleanup:
  assumes uu: "uuid_New rt (ext w) = (u, s0)"
  shows "(\<forall>c w1.
            CreateScript rt n \<lparr>Name = Some u, Content = Content s, Type = ScriptTypeGroovy\<rparr>
              (w\<lparr>ext := s0\<rparr>) = (Return (Some c, None), w1) \<longrightarrow>
            (\<exists>r w2 d w3.
               Script_Execute rt n c args w1 = (r, w2) \<and> Name c = Some u \<and>
               DeleteScript rt n u w2 = (Return d, w3) \<and>
               EphemeralScript_Execute rt n s args w = (r, w3) \<and>
               filter (\<lambda>q. call_of q = Delete) (issued w w3) =
                 (if url_error rt (URL (delete_request n u)) = None then [delete_request n u] else [])))
       \<and> (\<forall>c e w1.
            CreateScript rt n \<lparr>Name = Some u, Content = Content s, Type = ScriptTypeGroovy\<rparr>
              (w\<lparr>ext := s0\<rparr>) = (Return (c, Some e), w1) \<longrightarrow>
            EphemeralScript_Execute rt n s args w = (Return (None, Some e), w1) \<and>
            Delete \<notin> set (map call_of (issued w w1)))"
proof (intro conjI allI impI)
  fix c w1
  let ?sc = "\<lparr>Name = Some u, Content = Content s, Type = ScriptTypeGroovy\<rparr>"
  assume cr: "CreateScript rt n ?sc (w\<lparr>ext := s0\<rparr>) = (Return (Some c, None), w1)"
  from CreateScript_sent [OF cr]
  have s1: "\<exists>cs. sent w1 = sent w @ cs \<and> filter (\<lambda>q. call_of q = Delete) cs = []"
    by auto
  obtain r w2 where x: "Script_Execute rt n c args w1 = (r, w2)"
    by (cases "Script_Execute rt n c args w1")
  from Script_Execute_shape [OF x]
  have s2: "\<exists>xs. sent w2 = sent w1 @ xs \<and> filter (\<lambda>q. call_of q = Delete) xs = []"
    by auto
  obtain d0 w3 where dl: "DeleteScript rt n u w2 = (d0, w3)" by (cases "DeleteScript rt n u w2")
  from DeleteScript_returns [of rt n u w2] dl obtain d where d0: "d0 = Return d" by auto
  let ?D = "if url_error rt (URL (delete_request n u)) = None then [delete_request n u] else []"
  from DeleteScript_sent [OF dl] have s3: "sent w3 = sent w2 @ ?D" .
  from s1 s2 s3 have f: "filter (\<lambda>q. call_of q = Delete) (issued w w3) = ?D"
    by (auto simp: issued_def)
  from ephemeral_created [OF uu cr x] dl d0
  have "Name c = Some u" and "EphemeralScript_Execute rt n s args w = (r, w3)" by simp_all
  with x dl d0 f
  show "\<exists>r w2 d w3.
               Script_Execute rt n c args w1 = (r, w2) \<and> Name c = Some u \<and>
               DeleteScript rt n u w2 = (Return d, w3) \<and>
               EphemeralScript_Execute rt n s args w = (r, w3) \<and>
               filter (\<lambda>q. call_of q = Delete) (issued w w3) = ?D"
    by blast
next
  fix c e w1
  let ?sc = "\<lparr>Name = Some u, Content = Content s, Type = ScriptTypeGroovy\<rparr>"
  assume cr: "CreateScript rt n ?sc (w\<lparr>ext := s0\<rparr>) = (Return (c, Some e), w1)"
  show "EphemeralScript_Execute rt n s args w = (Return (None, Some e), w1)"
    by (rule ephemeral_create_failed [OF uu cr])
  from CreateScript_sent [OF cr] show "Delete \<notin> set (map call_of (issued w w1))"
    by (auto simp: issued_def)
qed

theorem EphemeralScript_cleanup_witness:
  "EphemeralScript_Execute (scripted_runtime raising) localhost p1 None world0 =
     (Return (Some \<lparr>ResponseName = Some ''x'', Result = Some ''boom''\<rparr>, Some (ErrorString ''boom'')),
      \<lparr>ext = (),
       sent = [create_request (scripted_runtime raising) localhost
                 \<lparr>Name = Some generated_name, Content = Some ''return 1'', Type = ScriptTypeGroovy\<rparr>,
               run_request localhost generated_name None,
               delete_request localhost generated_name]\<rparr>)
   \<and> filter (\<lambda>q. call_of q = Delete)
        (issued world0 (snd (EphemeralScript_Execute (scripted_runtime raising) localhost p1 None world0))) =
      [delete_request localhost generated_name]
   \<and> EphemeralScript_Execute (scripted_runtime (always 500 [])) localhost p1 None world0 =
     (Return (None, Some (ErrorString
        (''Script with name '' @ generated_name @ '' already exists, use UpdateScript instead''))),
      \<lparr>ext = (),
       sent = [create_request (scripted_runtime (always 500 [])) localhost
                 \<lparr>Name = Some generated_name, Content = Some ''return 1'', Type = ScriptTypeGroovy\<rparr>]\<rparr>)"
proof -
  let ?sc = "\<lparr>Name = Some generated_name, Content = Content p1, Type = ScriptTypeGroovy\<rparr>"
  let ?rt = "scripted_runtime raising"
  let ?w1 = "\<lparr>ext = (), sent = [create_request ?rt localhost ?sc]\<rparr>"
  let ?w2 = "\<lparr>ext = (), sent = [create_request ?rt localhost ?sc, run_request localhost generated_name None]\<rparr>"
  let ?w3 = "\<lparr>ext = (), sent = [create_request ?rt localhost ?sc, run_request localhost generated_name None,
               delete_request localhost generated_name]\<rparr>"
  have cr: "CreateScript ?rt localhost ?sc (world0\<lparr>ext := ext world0\<rparr>) = (Return (Some ?sc, None), ?w1)"
    by (simp add: run_defs raising_def p1_def create_request_def script_request_def)
  have ex: "Script_Execute ?rt localhost ?sc None ?w1 =
      (Return (Some \<lparr>ResponseName = Some ''x'', Result = Some ''boom''\<rparr>, Some (ErrorString ''boom'')), ?w2)"
    by (simp add: run_defs raising_def unmarshal_boom run_request_def script_request_def)
  have dl: "DeleteScript ?rt localhost generated_name ?w2 = (Return None, ?w3)"
    by (simp add: run_defs raising_def delete_request_def script_request_def)
  from EphemeralScript_cleanup
      [where rt = ?rt and w = world0 and n = localhost and s = p1 and args = None,
       OF scripted_uuid, THEN conjunct1, rule_format, OF cr]
  have a: "EphemeralScript_Execute ?rt localhost p1 None world0 =
      (Return (Some \<lparr>ResponseName = Some ''x'', Result = Some ''boom''\<rparr>, Some (ErrorString ''boom'')), ?w3)
    \<and> filter (\<lambda>q. call_of q = Delete) (issued world0 ?w3) = [delete_request localhost generated_name]"
    using ex dl by auto
  let ?rt' = "scripted_runtime (always 500 [])"
  have cf: "CreateScript ?rt' localhost ?sc (world0\<lparr>ext := ext world0\<rparr>) =
      (Return (None, Some (ErrorString
        (''Script with name '' @ generated_name @ '' already exists, use UpdateScript instead''))),
       \<lparr>ext = (), sent = [create_request ?rt' localhost ?sc]\<rparr>)"
    by (simp add: run_defs always_def p1_def create_request_def script_request_def)
  from EphemeralScript_cleanup
      [where rt = ?rt' and w = world0 and n = localhost and s = p1 and args = None,
       OF scripted_uuid, THEN conjunct2, rule_format, OF cf]
  have b: "EphemeralScript_Execute ?rt' localhost p1 None world0 =
      (Return (None, Some (ErrorString
        (''Script with name '' @ generated_name @ '' already exists, use UpdateScript instead''))),
       \<lparr>ext = (), sent = [create_request ?rt' localhost ?sc]\<rparr>)" by blast
  from a b show ?thesis by (simp add: p1_def)
qed
section \<open>Results returned alongside errors\<close>

text \<open>
  C8, as amended.  \<open>CreateScript\<close> and \<open>UpdateScript\<close> return a nil script with every
  error.  \<open>ExecuteScript\<close> does not.  When the server answers the run request with a
  status of 300 or more and a body that \<open>json.Unmarshal\<close> decodes without error to a
  response \<open>r\<close> whose result is the text \<open>m\<close> (the script raised an exception),
  \<open>ExecuteScript\<close> returns \<open>r\<close> together with the error of message \<open>m\<close>.  And
  \<open>ExecuteScript\<close> returns a response \<open>r\<close> together with an error \<open>e\<close> exactly when the
  run request was built and sent and \<open>json.Unmarshal\<close> stored \<open>r\<close> from the text of this
  exchange, which is the error text of \<open>Do\<close> when \<open>Do\<close> failed and the body otherwise,
  in one of two ways: the decoding of the error text reported no error, \<open>r\<close> has a
  result text and \<open>e\<close> is the error made of it; or the decoding reported a type error,
  and \<open>e\<close> is that error.  With a syntax error of the decoding the response is nil.
\<close>

theorem result_with_error_is_decoded:
  "(\<forall>b e w1. CreateScript rt n script w = (Return (b, Some e), w1) \<longrightarrow> b = None)
   \<and> (\<forall>b e w1. UpdateScript rt n script w = (Return (b, Some e), w1) \<longrightarrow> b = None)
   \<and> (\<forall>payload resp s' r m.
         marshalScriptArgs rt args = Inr payload \<longrightarrow>
         url_error rt (URL (run_request n name payload)) = None \<longrightarrow>
         client_Do rt (run_request n name payload) (ext w) = (Response resp, s') \<longrightarrow>
         300 \<le> StatusCode resp \<longrightarrow>
         json_Unmarshal_Response (RespBody resp) = (Some r, None) \<longrightarrow>
         Result r = Some m \<longrightarrow>
           ExecuteScript rt n name args w =
             (Return (Some r, Some (ErrorString m)),
              \<lparr>ext = s', sent = sent w @ [run_request n name payload]\<rparr>))
   \<and> (\<forall>r e w1.
         ExecuteScript rt n name args w = (Return (Some r, Some e), w1) \<longleftrightarrow>
         (\<exists>payload x je.
            marshalScriptArgs rt args = Inr payload \<and>
            url_error rt (URL (run_request n name payload)) = None \<and>
            Do rt (run_request n name payload) None True w = (x, w1) \<and>
            json_Unmarshal_Response (case x of Inl e0 \<Rightarrow> Error rt e0 | Inr body \<Rightarrow> body) =
              (Some r, je) \<and>
            (case je of
               None \<Rightarrow> (\<exists>e0. x = Inl e0) \<and> (\<exists>m. Result r = Some m \<and> e = ErrorString m)
             | Some j \<Rightarrow> j = UnmarshalTypeError \<and> e = JsonError j)))
   \<and> (\<forall>r w1. ExecuteScript rt n name args w = (Return (r, Some (JsonError SyntaxError)), w1) \<longrightarrow>
         r = None)"
proof (intro conjI allI impI)
  fix b e w1
  assume "CreateScript rt n script w = (Return (b, Some e), w1)"
  from CreateScript_result [OF this] show "b = None" by auto
next
  fix b e w1
  assume "UpdateScript rt n script w = (Return (b, Some e), w1)"
  from UpdateScript_result [OF this] show "b = None" by auto
next
  fix payload resp s' r m
  assume ma: "marshalScriptArgs rt args = Inr payload"
    and url: "url_error rt (URL (run_request n name payload)) = None"
    and cd: "client_Do rt (run_request n name payload) (ext w) = (Response resp, s')"
    and st: "300 \<le> StatusCode resp"
    and dec: "json_Unmarshal_Response (RespBody resp) = (Some r, None)"
    and res: "Result r = Some m"
  from ExecuteScript_failed [OF ma url Do_body_as_error [OF cd st]] dec res
  show "ExecuteScript rt n name args w =
             (Return (Some r, Some (ErrorString m)),
              \<lparr>ext = s', sent = sent w @ [run_request n name payload]\<rparr>)"
    by simp
next
  fix r e w1
  show "ExecuteScript rt n name args w = (Return (Some r, Some e), w1) \<longleftrightarrow>
         (\<exists>payload x je.
            marshalScriptArgs rt args = Inr payload \<and>
            url_error rt (URL (run_request n name payload)) = None \<and>
            Do rt (run_request n name payload) None True w = (x, w1) \<and>
            json_Unmarshal_Response (case x of Inl e0 \<Rightarrow> Error rt e0 | Inr body \<Rightarrow> body) =
              (Some r, je) \<and>
            (case je of
               None \<Rightarrow> (\<exists>e0. x = Inl e0) \<and> (\<exists>m. Result r = Some m \<and> e = ErrorString m)
             | Some j \<Rightarrow> j = UnmarshalTypeError \<and> e = JsonError j))"
    (is "?L \<longleftrightarrow> ?R")
  proof
    assume x: ?L
    from x obtain payload where ma: "marshalScriptArgs rt args = Inr payload"
      using ExecuteScript_no_marshal [of rt args _ n name w] by (cases "marshalScriptArgs rt args") auto
    from x ma have url: "url_error rt (URL (run_request n name payload)) = None"
      using ExecuteScript_no_url [OF ma, of n name _ w] by (cases "url_error rt (URL (run_request n name payload))") auto
    obtain y w1' where d: "Do rt (run_request n name payload) None True w = (y, w1')"
      by (cases "Do rt (run_request n name payload) None True w")
    obtain res je where
      u: "json_Unmarshal_Response (case y of Inl e0 \<Rightarrow> Error rt e0 | Inr body \<Rightarrow> body) = (res, je)"
      by (cases "json_Unmarshal_Response (case y of Inl e0 \<Rightarrow> Error rt e0 | Inr body \<Rightarrow> body)")
    have ty: "je = Some j \<Longrightarrow> res = Some r \<Longrightarrow> j = UnmarshalTypeError" for j
      using unmarshal_syntax_error_nil [of _ res] u by (cases j) auto
    show ?R
    proof (cases y)
      case (Inl e0)
      from ExecuteScript_failed [OF ma url d [unfolded Inl]] x u Inl
      have "w1' = w1 \<and> res = Some r \<and>
          (case je of None \<Rightarrow> (\<exists>m. Result r = Some m \<and> e = ErrorString m)
           | Some j \<Rightarrow> e = JsonError j)"
        by (auto split: option.splits)
      with ma url d u Inl ty show ?thesis
        by (intro exI [of _ payload] exI [of _ y] exI [of _ je]) (auto split: option.splits)
    next
      case (Inr body)
      from ExecuteScript_succeeded [OF ma url d [unfolded Inr]] x u Inr
      have "w1' = w1 \<and> res = Some r \<and> (\<exists>j. je = Some j \<and> e = JsonError j)"
        by (auto split: option.splits)
      with ma url d u Inr ty show ?thesis
        by (intro exI [of _ payload] exI [of _ y] exI [of _ je]) (auto split: option.splits)
    qed
  next
    assume ?R
    then obtain payload x je where ma: "marshalScriptArgs rt args = Inr payload"
      and url: "url_error rt (URL (run_request n name payload)) = None"
      and d: "Do rt (run_request n name payload) None True w = (x, w1)"
      and u: "json_Unmarshal_Response (case x of Inl e0 \<Rightarrow> Error rt e0 | Inr body \<Rightarrow> body) =
              (Some r, je)"
      and c: "case je of
               None \<Rightarrow> (\<exists>e0. x = Inl e0) \<and> (\<exists>m. Result r = Some m \<and> e = ErrorString m)
             | Some j \<Rightarrow> j = UnmarshalTypeError \<and> e = JsonError j"
      by blast
    show ?L
    proof (cases x)
      case (Inl e0)
      from ExecuteScript_failed [OF ma url d [unfolded Inl]] u c Inl show ?thesis
        by (auto split: option.splits)
    next
      case (Inr body)
      from ExecuteScript_succeeded [OF ma url d [unfolded Inr]] u c Inr show ?thesis
        by (auto split: option.splits)
    qed
  qed
next
  fix r w1
  assume "ExecuteScript rt n name args w = (Return (r, Some (JsonError SyntaxError)), w1)"
  then show "r = None"
    by (auto simp: ExecuteScript_def split: sum.splits prod.splits option.splits
        dest: unmarshal_syntax_error_nil)
qed

text \<open>
  C8 as stated fails for \<open>ExecuteScript\<close> when the script raised an exception: with the
  failure body of name "x" and result "boom", the decoded response is returned
  alongside the error "boom".
\<close>

theorem ExecuteScript_returns_result_with_error:
  "fst (ExecuteScript (scripted_runtime raising) localhost ''p1'' None world0) =
     Return (Some \<lparr>ResponseName = Some ''x'', Result = Some ''boom''\<rparr>, Some (ErrorString ''boom''))"
  by (simp add: raising_ExecuteScript)

theorem result_with_error_is_decoded_witness:
  \<open>ExecuteScript (scripted_runtime (always 500 ''{"name":"x","result":"boom"}'')) localhost ''p1'' None
       world0 =
     (Return (Some \<lparr>ResponseName = Some ''x'', Result = Some ''boom''\<rparr>, Some (ErrorString ''boom'')),
      \<lparr>ext = (), sent = [run_request localhost ''p1'' None]\<rparr>)
   \<and> (\<exists>payload x je.
         marshalScriptArgs (scripted_runtime raising) None = Inr payload \<and>
         Do (scripted_runtime raising) (run_request localhost ''p1'' payload) None True world0 =
           (x, \<lparr>ext = (), sent = [run_request localhost ''p1'' None]\<rparr>) \<and>
         json_Unmarshal_Response
           (case x of Inl e0 \<Rightarrow> Error (scripted_runtime raising) e0 | Inr body \<Rightarrow> body) =
           (Some \<lparr>ResponseName = Some ''x'', Result = Some ''boom''\<rparr>, je))\<close>
proof -
  note t = result_with_error_is_decoded
  have a: \<open>ExecuteScript (scripted_runtime (always 500 ''{"name":"x","result":"boom"}'')) localhost ''p1'' None
       world0 =
     (Return (Some \<lparr>ResponseName = Some ''x'', Result = Some ''boom''\<rparr>, Some (ErrorString ''boom'')),
      \<lparr>ext = (), sent = [run_request localhost ''p1'' None]\<rparr>)\<close>
    using t [where rt = \<open>scripted_runtime (always 500 ''{"name":"x","result":"boom"}'')\<close>
        and n = localhost and name = "''p1''" and args = None and w = world0,
        THEN conjunct2, THEN conjunct2, THEN conjunct1, rule_format,
        where payload = None and m = "''boom''"
          and resp = \<open>\<lparr>StatusCode = 500, RespBody = ''{"name":"x","result":"boom"}'', ReadErr = None\<rparr>\<close>
          and s' = "()" and r = "\<lparr>ResponseName = Some ''x'', Result = Some ''boom''\<rparr>"]
    by (simp add: marshalScriptArgs_def always_def status_with_def unmarshal_boom sent_world0 world0_def)
  have b: \<open>\<exists>payload x je.
         marshalScriptArgs (scripted_runtime raising) None = Inr payload \<and>
         Do (scripted_runtime raising) (run_request localhost ''p1'' payload) None True world0 =
           (x, \<lparr>ext = (), sent = [run_request localhost ''p1'' None]\<rparr>) \<and>
         json_Unmarshal_Response
           (case x of Inl e0 \<Rightarrow> Error (scripted_runtime raising) e0 | Inr body \<Rightarrow> body) =
           (Some \<lparr>ResponseName = Some ''x'', Result = Some ''boom''\<rparr>, je)\<close>
    using t [where rt = "scripted_runtime raising" and n = localhost and name = "''p1''"
        and args = None and w = world0,
        THEN conjunct2, THEN conjunct2, THEN conjunct2, THEN conjunct1, rule_format,
        THEN iffD1, OF raising_ExecuteScript]
    by blast
  from a b show ?thesis by blast
qed
section \<open>The traversal of the pages\<close>

text \<open>
  C5.  Let the successive fetches of a traversal yield the pages \<open>ps\<close> (at least one),
  each page but the last carrying a continuation token and the last one carrying
  none, and let the callback return continue = true and no error on each of them.
  Then \<open>ListAssetsPages\<close> returns, without error, after calling the callback once per
  page, in the order of the pages, with the flag false on every call but the last and
  true on the last; the items handed to the calls are, in order, the items of the
  pages.  The same holds for \<open>ListComponentsPages\<close>.
\<close>

theorem traversal_visits_every_page:
  "(served (ListAssets rt n) cb input w ps \<longrightarrow>
      (\<exists>w' calls. ListAssetsPages rt n input cb (w, []) = Some (Return None, w', calls) \<and>
         length calls = length ps \<and> map fst calls = ps \<and>
         map snd calls = replicate (length ps - 1) False @ [True] \<and>
         concat (map (Items \<circ> fst) calls) = concat (map Items ps)))
   \<and> (served (ListComponents rt n) cb' input' w ps' \<longrightarrow>
      (\<exists>w' calls. ListComponentsPages rt n input' cb' (w, []) = Some (Return None, w', calls) \<and>
         length calls = length ps' \<and> map fst calls = ps' \<and>
         map snd calls = replicate (length ps' - 1) False @ [True] \<and>
         concat (map (Items \<circ> fst) calls) = concat (map Items ps')))"
  unfolding ListAssetsPages_def ListComponentsPages_def
  using ListPages_every_page [of "ListAssets rt n" cb input w ps]
    ListPages_every_page [of "ListComponents rt n" cb' input' w ps']
  by blast

text \<open>
  C6.  Let the fetch of \<open>ListAssetsPages\<close> return a page.  When the page carries a
  token and the callback returns continue = false and no error, the traversal returns
  at once without error: the callback has been called once, and the one request of
  the fetch is the only request issued.  When the page carries no token, the
  traversal returns what the callback returned as its error, whatever its continue
  flag is, again after the one request.
\<close>

theorem traversal_stops:
  assumes f: "ListAssets rt n input w = (Return (Some res, None), w1)"
  shows "(\<forall>token s2.
            NextToken res = Some token \<longrightarrow> cb res False (ext w1) = ((False, None), s2) \<longrightarrow>
              ListAssetsPages rt n input cb (w, h) = Some (Return None, w1\<lparr>ext := s2\<rparr>, h @ [(res, False)]) \<and>
              length (issued w (w1\<lparr>ext := s2\<rparr>)) = 1)
       \<and> (\<forall>cont err s2.
            NextToken res = None \<longrightarrow> cb res True (ext w1) = ((cont, err), s2) \<longrightarrow>
              ListAssetsPages rt n input cb (w, h) = Some (Return err, w1\<lparr>ext := s2\<rparr>, h @ [(res, True)]) \<and>
              length (issued w (w1\<lparr>ext := s2\<rparr>)) = 1)"
proof -
  from ListAssets_sent [OF f] have l: "length (issued w (w1\<lparr>ext := s2\<rparr>)) = 1" for s2
    by (simp add: issued_def)
  have a: "ListPages (ListAssets rt n) input cb (w, h) =
      Some (Return None, w1\<lparr>ext := s2\<rparr>, h @ [(res, False)])"
    if "NextToken res = Some token" "cb res False (ext w1) = ((False, None), s2)" for token s2
    using f that by (subst ListPages.simps) simp
  have b: "ListPages (ListAssets rt n) input cb (w, h) =
      Some (Return err, w1\<lparr>ext := s2\<rparr>, h @ [(res, True)])"
    if "NextToken res = None" "cb res True (ext w1) = ((cont, err), s2)" for cont err s2
    using f that by (subst ListPages.simps) simp
  from a b l show ?thesis
    unfolding ListAssetsPages_def by blast
qed

theorem traversal_visits_every_page_witness:
  "(\<exists>w' calls. ListAssetsPages (scripted_runtime two_pages) localhost (my_repo None) keep_going (world0, []) =
        Some (Return None, w', calls) \<and>
      length calls = 2 \<and> map fst calls = [first_page asset, second_page asset] \<and>
      map snd calls = [False, True] \<and>
      concat (map (Items \<circ> fst) calls) = [asset ''a'', asset ''b'', asset ''c''])
   \<and> (\<exists>w' calls. ListComponentsPages (scripted_runtime two_pages) localhost (my_repo None) keep_going (world0, []) =
        Some (Return None, w', calls) \<and>
      length calls = 2 \<and> map fst calls = [first_page component, second_page component] \<and>
      map snd calls = [False, True] \<and>
      concat (map (Items \<circ> fst) calls) = [component ''a'', component ''b'', component ''c''])"
proof -
  note a = traversal_visits_every_page
    [of "scripted_runtime two_pages" localhost keep_going "my_repo None" world0
        "[first_page asset, second_page asset]",
     THEN conjunct1, THEN mp, OF two_pages_served(1)]
  note b = traversal_visits_every_page
    [of "scripted_runtime two_pages" localhost _ _ world0 _ keep_going "my_repo None"
        "[first_page component, second_page component]",
     THEN conjunct2, THEN mp, OF two_pages_served(2)]
  from a b show ?thesis
    by (simp add: first_page_def second_page_def numeral_2_eq_2)
qed

theorem traversal_stops_witness:
  "ListAssetsPages (scripted_runtime two_pages) localhost (my_repo None) stop_now (world0, []) =
     Some (Return None, \<lparr>ext = (), sent = [list_request ''assets'' None]\<rparr>, [(first_page asset, False)])
   \<and> ListAssetsPages (scripted_runtime two_pages) localhost (my_repo (Some ''tok1'')) keep_going (world0, []) =
     Some (Return None, \<lparr>ext = (), sent = [list_request ''assets'' (Some ''tok1'')]\<rparr>,
           [(second_page asset, True)])"
  using traversal_stops [OF two_pages_ListAssets(1), where w = world0 and cb = stop_now and h = "[]"]
    traversal_stops [OF two_pages_ListAssets(2), where w = world0 and cb = keep_going and h = "[]"]
  by (auto simp: page_tokens stop_now_def keep_going_def sent_world0)

end
